theory Spec2Isabelle
  imports Complex_Main
begin

section \<open>Numeric conventions\<close>

text \<open>
  Python floats and NumPy float arrays are modelled as \<^typ>\<open>real\<close> and
  \<^typ>\<open>real list\<close>: rounding, infinities and NaN are outside the model. Where NumPy
  would produce NaN (the mean of an empty array) or Python would raise, the model returns
  an explicit error value.
\<close>

text \<open>\<^verbatim>\<open>np.clip(x, lo, hi)\<close> is \<^verbatim>\<open>minimum(maximum(x, lo), hi)\<close>.\<close>

definition clip :: "real \<Rightarrow> real \<Rightarrow> real \<Rightarrow> real" where
  "clip x lo hi = min (max x lo) hi"

text \<open>
  \<^verbatim>\<open>np.arange(start, stop, step)\<close> for a non-zero step: the
  \<open>\<lceil>(stop - start) / step\<rceil>\<close> points \<open>start + i * step\<close> (none when that number
  is not positive). NumPy raises for \<open>step = 0\<close>; callers with a variable step test for
  it before calling.
\<close>

definition arange :: "real \<Rightarrow> real \<Rightarrow> real \<Rightarrow> real list" where
  "arange start stop step =
     map (\<lambda>i. start + real i * step) [0 ..< nat \<lceil>(stop - start) / step\<rceil>]"

section \<open>Scoring (tuning.py)\<close>

text \<open>
  \<^verbatim>\<open>
  def cost_function(glucose_trace, ref_level=90.0, min_level=80.0):
      err = glucose_trace - ref_level
      err[glucose_trace < min_level] *= 10
      return np.sqrt(np.mean(err ** 2))
  \<close>
  The deviation itself (not its square) is multiplied by 10 where the sample is below
  \<open>min_level\<close>. The mean of an empty array is NaN: \<open>None\<close> here.
\<close>

definition penalised_err :: "real \<Rightarrow> real \<Rightarrow> real \<Rightarrow> real" where
  "penalised_err ref_level min_level g =
     (if g < min_level then (g - ref_level) * 10 else g - ref_level)"

definition cost_function :: "real list \<Rightarrow> real \<Rightarrow> real \<Rightarrow> real option" where
  "cost_function glucose_trace ref_level min_level =
     (if glucose_trace = [] then None
      else Some (sqrt (sum_list (map (\<lambda>g. (penalised_err ref_level min_level g)\<^sup>2) glucose_trace)
                       / real (length glucose_trace))))"

text \<open>
  The cost as the specification words it: root mean square of the deviations from the
  reference, the \<^emph>\<open>squared\<close> error term of a sample below the floor multiplied by 10.
\<close>

definition cost_spec :: "real list \<Rightarrow> real \<Rightarrow> real \<Rightarrow> real option" where
  "cost_spec glucose_trace ref floor_level =
     (if glucose_trace = [] then None
      else Some (sqrt (sum_list (map (\<lambda>g. (if g < floor_level then 10 else 1) * (g - ref)\<^sup>2)
                                   glucose_trace)
                       / real (length glucose_trace))))"

text \<open>The cost with the factor the code really applies to the squared term, 100.\<close>

definition cost_amended :: "real list \<Rightarrow> real \<Rightarrow> real \<Rightarrow> real option" where
  "cost_amended glucose_trace ref floor_level =
     (if glucose_trace = [] then None
      else Some (sqrt (sum_list (map (\<lambda>g. (if g < floor_level then 100 else 1) * (g - ref)\<^sup>2)
                                   glucose_trace)
                       / real (length glucose_trace))))"

section \<open>Patient physiology model (patient_model.py)\<close>

text \<open>
  The fields of class \<^verbatim>\<open>PatientModel\<close>, prefixed \<open>pm_\<close> (the source names
  \<open>G\<close>, \<open>X\<close>, \<open>I\<close>, \<open>t\<close>, \<open>dt\<close> would capture the variables of every later
  statement).
\<close>

record PatientModel =
  pm_G :: real
  pm_X :: real
  pm_I :: real
  pm_Gb :: real
  pm_Ib :: real
  pm_dt :: real
  pm_t :: real
  pm_p1_per_min :: real
  pm_p2_per_min :: real
  pm_p3_per_min :: real
  pm_n_per_min :: real
  pm_gamma_mU_per_unit :: real

text \<open>
  \<^verbatim>\<open>__init__(self, initial_glucose=90.0, initial_insulin=15.0, dt_hours=5/60)\<close>:
  eleven assignments, no test of any argument, no \<^verbatim>\<open>raise\<close>.
\<close>

definition PatientModel_init :: "real \<Rightarrow> real \<Rightarrow> real \<Rightarrow> PatientModel" where
  "PatientModel_init initial_glucose initial_insulin dt_hours =
     \<lparr> pm_G = initial_glucose, pm_X = 0, pm_I = initial_insulin,
       pm_Gb = 90, pm_Ib = initial_insulin,
       pm_dt = dt_hours, pm_t = 0,
       pm_p1_per_min = 28 / 1000, pm_p2_per_min = 25 / 1000,
       pm_p3_per_min = 5 / 100000, pm_n_per_min = 2 / 10,
       pm_gamma_mU_per_unit = 20 \<rparr>"

type_synonym state3 = "real \<times> real \<times> real"

text \<open>
  The dosing interval in minutes, as \<^verbatim>\<open>dynamics\<close> computes it:
  \<^verbatim>\<open>
  dt_minutes = self.dt * 60.0 if self.dt > 0 else 1.0
  if dt_minutes <= 0:
      dt_minutes = 1.0
  \<close>
\<close>

definition dt_minutes :: "PatientModel \<Rightarrow> real" where
  "dt_minutes self =
     (let m = (if pm_dt self > 0 then pm_dt self * 60 else 1)
      in if m \<le> 0 then 1 else m)"

text \<open>
  \<^verbatim>\<open>dynamics(self, state, t, insulin_dose_units_per_step, meal_rate_mg_per_dL_per_min)\<close>:
  the right-hand side of the three Bergman equations, per hour.
\<close>

definition dynamics :: "PatientModel \<Rightarrow> state3 \<Rightarrow> real \<Rightarrow> real \<Rightarrow> real \<Rightarrow> state3" where
  "dynamics self state tm insulin_dose_units_per_step meal_rate_mg_per_dL_per_min =
     (case state of (g, x, i) \<Rightarrow>
        let p1 = pm_p1_per_min self * 60;
            p2 = pm_p2_per_min self * 60;
            p3 = pm_p3_per_min self * 60;
            n = pm_n_per_min self * 60;
            meal_rate_per_hour = meal_rate_mg_per_dL_per_min * 60;
            units_per_minute = insulin_dose_units_per_step / dt_minutes self;
            u_mU_per_min = pm_gamma_mU_per_unit self * units_per_minute;
            u_mU_per_hour = u_mU_per_min * 60;
            dGdt = - (p1 + x) * g + p1 * pm_Gb self + meal_rate_per_hour;
            dXdt = - p2 * x + p3 * (i - pm_Ib self);
            dIdt = - n * (i - pm_Ib self) + u_mU_per_hour
        in (dGdt, dXdt, dIdt))"

text \<open>
  \<^verbatim>\<open>scipy.integrate.odeint(func, y0, [t0, t1], args)[-1]\<close> is a library call: the
  solver is a parameter of the model, a function from the right-hand side, the initial
  state and the two time points to the state at the second time point.
\<close>

type_synonym ode_solver = "(state3 \<Rightarrow> real \<Rightarrow> state3) \<Rightarrow> state3 \<Rightarrow> real \<Rightarrow> real \<Rightarrow> state3"

text \<open>
  \<^verbatim>\<open>
  def step(self, insulin_dose, meal_rate=0):
      state0 = [self.G, self.X, self.I]
      sol = odeint(self.dynamics, state0, [0.0, self.dt], args=(insulin_dose, meal_rate))
      self.G, self.X, self.I = sol[-1]
      self.t += self.dt
      return self.G
  \<close>
  The model returns the glucose value and the mutated object.
\<close>

definition step :: "ode_solver \<Rightarrow> PatientModel \<Rightarrow> real \<Rightarrow> real \<Rightarrow> real \<times> PatientModel" where
  "step odeint self insulin_dose meal_rate =
     (let state0 = (pm_G self, pm_X self, pm_I self);
          sol = odeint (\<lambda>y tm. dynamics self y tm insulin_dose meal_rate) state0 0 (pm_dt self);
          self' = self\<lparr> pm_G := fst sol, pm_X := fst (snd sol), pm_I := snd (snd sol),
                        pm_t := pm_t self + pm_dt self \<rparr>
      in (pm_G self', self'))"

text \<open>
  \<^verbatim>\<open>meal_absorption(t, meal_time, carbs, tau=45)\<close>; \<open>t\<close> and \<open>meal_time\<close> in hours,
  \<open>tau\<close> in minutes. Every call in the repository passes the literal 45 or 30 for
  \<open>tau\<close>; Python would raise on \<open>tau = 0\<close>, and the results below are stated for
  \<open>0 < tau\<close>.
\<close>

definition meal_absorption :: "real \<Rightarrow> real \<Rightarrow> real \<Rightarrow> real \<Rightarrow> real" where
  "meal_absorption tm meal_time carbs tau =
     (if tm < meal_time then 0
      else let dt_min = (tm - meal_time) * 60;
               glucose_per_gram = 35 / 10;
               total_glucose_rise = carbs * glucose_per_gram
           in (total_glucose_rise / tau) * exp (- dt_min / tau))"

text \<open>
  A meal schedule is a Python dict from hour to grams: here the list of its items, whose
  keys are distinct. The loop
  \<^verbatim>\<open>
  meal_times = sorted(meals.keys())
  meal_rate = 0
  for mt in meal_times:
      meal_rate += meal_absorption(t, mt, meals[mt], tau=...)
  \<close>
  is shared by \<^verbatim>\<open>PatientModel.simulate\<close> (\<open>tau = 45\<close>) and
  \<^verbatim>\<open>simulate_controller\<close> (\<open>tau = 30\<close>).
\<close>

type_synonym meal_schedule = "(real \<times> real) list"

definition meals_lookup :: "meal_schedule \<Rightarrow> real \<Rightarrow> real" where
  "meals_lookup meals mt = (case map_of meals mt of Some c \<Rightarrow> c | None \<Rightarrow> 0)"

definition meal_rate_at :: "real \<Rightarrow> meal_schedule \<Rightarrow> real \<Rightarrow> real" where
  "meal_rate_at tm meals tau =
     fold (\<lambda>mt meal_rate. meal_rate + meal_absorption tm mt (meals_lookup meals mt) tau)
          (sort (map fst meals)) 0"

text \<open>The module-level schedule \<^verbatim>\<open>meals = {7.0: 50, 12.0: 60, 18.0: 70}\<close>.\<close>

definition meals :: meal_schedule where
  "meals = [(7, 50), (12, 60), (18, 70)]"

text \<open>
  \<^verbatim>\<open>PatientModel.simulate(self, insulin_doses, meal_schedule)\<close>. The loop state is the
  local \<^verbatim>\<open>state0\<close>, the three trace arrays and the object itself, of which the loop
  assigns only \<^verbatim>\<open>self.t\<close>.
\<close>

record sim_state =
  ss_state0 :: state3
  ss_G_trace :: "real list"
  ss_X_trace :: "real list"
  ss_I_trace :: "real list"
  ss_self :: PatientModel

definition simulate_body ::
  "ode_solver \<Rightarrow> real list \<Rightarrow> meal_schedule \<Rightarrow> nat \<times> real \<Rightarrow> sim_state \<Rightarrow> sim_state" where
  "simulate_body odeint insulin_doses meal_sched it s =
     (case it of (i, tm) \<Rightarrow>
        let self = ss_self s;
            meal_rate = meal_rate_at tm meal_sched 45;
            insulin_dose = (if i < length insulin_doses then insulin_doses ! i else 0);
            sol = odeint (\<lambda>y tm'. dynamics self y tm' insulin_dose meal_rate)
                         (ss_state0 s) 0 (pm_dt self)
        in s\<lparr> ss_state0 := sol,
               ss_G_trace := (ss_G_trace s)[i := fst sol],
               ss_X_trace := (ss_X_trace s)[i := fst (snd sol)],
               ss_I_trace := (ss_I_trace s)[i := snd (snd sol)],
               ss_self := self\<lparr> pm_t := tm + pm_dt self \<rparr> \<rparr>)"

text \<open>
  \<^verbatim>\<open>np.arange(0, 24, self.dt)\<close> raises for a zero step; a negative step gives no time
  point and the loop body never runs.
\<close>

datatype np_error = ArangeZeroStep

definition simulate ::
  "ode_solver \<Rightarrow> PatientModel \<Rightarrow> real list \<Rightarrow> meal_schedule
     \<Rightarrow> np_error + (PatientModel \<times> real list \<times> real list)" where
  "simulate odeint self insulin_doses meal_sched =
     (if pm_dt self = 0 then Inl ArangeZeroStep
      else
        let times = arange 0 24 (pm_dt self);
            n = length times;
            s0 = \<lparr> ss_state0 = (pm_G self, pm_X self, pm_I self),
                   ss_G_trace = replicate n 0, ss_X_trace = replicate n 0,
                   ss_I_trace = replicate n 0, ss_self = self \<rparr>;
            s = fold (simulate_body odeint insulin_doses meal_sched) (enumerate 0 times) s0
        in Inr (ss_self s, ss_G_trace s, ss_I_trace s))"

text \<open>
  An explicit Euler step, a sample solver for the concrete evaluations below (the
  results hold for every solver).
\<close>

definition euler :: ode_solver where
  "euler f y t0 t1 = (case (y, f y t0) of ((g, x, i), (dg, dx, di)) \<Rightarrow>
      (g + (t1 - t0) * dg, x + (t1 - t0) * dx, i + (t1 - t0) * di))"

section \<open>Membership and inference primitives\<close>

text \<open>
  Modelled from the spec: the membership functions \<^verbatim>\<open>fuzz.trimf\<close> and
  \<^verbatim>\<open>fuzz.trapmf\<close> and the inference engine behind \<^verbatim>\<open>ctrl.Rule\<close>,
  \<^verbatim>\<open>ctrl.ControlSystem\<close> and \<^verbatim>\<open>ctrl.ControlSystemSimulation\<close> belong to
  the library scikit-fuzzy, which is not under \<^verbatim>\<open>src/\<close>. The definitions of this
  section follow section 4.1 of the specification: a triangular function is 0 outside
  \<open>[a, c]\<close>, ramps up linearly on \<open>[a, b]\<close> and down on \<open>[b, c]\<close>, with peak 1 at
  \<open>b\<close> (a step when \<open>a = b\<close>), a trapezoidal one has four breakpoints and a flat top;
  a rule's firing strength combines conjunctions by minimum and disjunctions by
  maximum; each rule clips its consequent's curve at its firing strength, the envelope
  is the pointwise maximum over the rules, and the crisp output is the centroid
  (area-weighted mean) of the envelope over the output universe, sampled on the
  universe's grid. An envelope that is zero everywhere has no centroid. Memberships of
  the inputs are evaluated at the input itself, so the universes of the antecedents
  play no part; the envelope is taken linear between neighbouring points of the
  output grid, with no further points where a curve meets its clipping level.
\<close>

definition trimf :: "real \<Rightarrow> real \<Rightarrow> real \<Rightarrow> real \<Rightarrow> real" where
  "trimf a b c x =
     (if x = b then 1
      else if a < x \<and> x < b then (x - a) / (b - a)
      else if b < x \<and> x < c then (c - x) / (c - b)
      else 0)"

definition trapmf :: "real \<Rightarrow> real \<Rightarrow> real \<Rightarrow> real \<Rightarrow> real \<Rightarrow> real" where
  "trapmf a b c d x =
     (if x < a \<or> d < x then 0
      else if x \<le> b then trimf a b b x
      else if c \<le> x then trimf c c d x
      else 1)"

text \<open>
  An antecedent over two input variables, whose fuzzy sets are named by \<open>'a\<close> and
  \<open>'b\<close>: \<^verbatim>\<open>x['A']\<close>, \<^verbatim>\<open>y['B']\<close>, \<^verbatim>\<open>p & q\<close>, \<^verbatim>\<open>p | q\<close>. A rule pairs
  an antecedent with the consequent's set.
\<close>

datatype ('a, 'b) antecedent =
    In1 'a
  | In2 'b
  | And "('a, 'b) antecedent" "('a, 'b) antecedent"
  | Or "('a, 'b) antecedent" "('a, 'b) antecedent"

type_synonym ('a, 'b, 'c) rule = "('a, 'b) antecedent \<times> 'c"

fun rule_strength :: "('a \<Rightarrow> real) \<Rightarrow> ('b \<Rightarrow> real) \<Rightarrow> ('a, 'b) antecedent \<Rightarrow> real" where
  "rule_strength m1 m2 (In1 s) = m1 s"
| "rule_strength m1 m2 (In2 s) = m2 s"
| "rule_strength m1 m2 (And p q) = min (rule_strength m1 m2 p) (rule_strength m1 m2 q)"
| "rule_strength m1 m2 (Or p q) = max (rule_strength m1 m2 p) (rule_strength m1 m2 q)"

text \<open>The firing strength of every rule, paired with the rule's consequent.\<close>

definition fire ::
  "('a \<Rightarrow> real) \<Rightarrow> ('b \<Rightarrow> real) \<Rightarrow> ('a, 'b, 'c) rule list \<Rightarrow> (real \<times> 'c) list" where
  "fire m1 m2 rules = map (\<lambda>r. (rule_strength m1 m2 (fst r), snd r)) rules"

text \<open>
  The aggregated envelope at a point of the output universe: the maximum, over the
  rules, of the consequent's membership clipped at the rule's firing strength.
\<close>

definition envelope :: "('c \<Rightarrow> real \<Rightarrow> real) \<Rightarrow> (real \<times> 'c) list \<Rightarrow> real \<Rightarrow> real" where
  "envelope mf fired x = fold (\<lambda>sc acc. max acc (min (fst sc) (mf (snd sc) x))) fired 0"

text \<open>
  Area and first moment of the polygon under the envelope, the envelope taken linear
  between neighbouring grid points.
\<close>

fun area :: "(real \<times> real) list \<Rightarrow> real" where
  "area (p # q # ps) = (fst q - fst p) * (snd p + snd q) / 2 + area (q # ps)"
| "area ps = 0"

fun moment :: "(real \<times> real) list \<Rightarrow> real" where
  "moment (p # q # ps) =
     (fst q - fst p) * (snd p * (2 * fst p + fst q) + snd q * (fst p + 2 * fst q)) / 6
       + moment (q # ps)"
| "moment ps = 0"

definition centroid :: "(real \<times> real) list \<Rightarrow> real" where
  "centroid ps = (case ps of [p] \<Rightarrow> fst p | _ \<Rightarrow> moment ps / area ps)"

definition aggregate_and_defuzzify ::
  "real list \<Rightarrow> ('c \<Rightarrow> real \<Rightarrow> real) \<Rightarrow> (real \<times> 'c) list \<Rightarrow> real option" where
  "aggregate_and_defuzzify universe mf fired =
     (let ys = map (envelope mf fired) universe
      in if list_all (\<lambda>y. y = 0) ys then None else Some (centroid (zip universe ys)))"

section \<open>Hierarchical fuzzy controller (controllers/fuzzy\_controller.py)\<close>

text \<open>The labels of the fuzzy sets of the five linguistic variables.\<close>

datatype level_set = Lvl_VL | Lvl_L | Lvl_N | Lvl_H | Lvl_VH
datatype rate_set = Rate_N | Rate_Z | Rate_P | Rate_VP
datatype accel_set = Acc_N | Acc_Z | Acc_P
datatype dose_set = Dose_Z | Dose_VL | Dose_L | Dose_M | Dose_H | Dose_VH

text \<open>The membership functions of \<^verbatim>\<open>_build_fis1\<close>, lines 32 to 50.\<close>

fun bg_level_mf :: "level_set \<Rightarrow> real \<Rightarrow> real" where
  "bg_level_mf Lvl_VL = trapmf 0 0 50 70"
| "bg_level_mf Lvl_L = trimf 60 75 90"
| "bg_level_mf Lvl_N = trimf 85 100 115"
| "bg_level_mf Lvl_H = trimf 110 130 160"
| "bg_level_mf Lvl_VH = trapmf 150 180 400 400"

fun bg_rate_mf :: "rate_set \<Rightarrow> real \<Rightarrow> real" where
  "bg_rate_mf Rate_N = trapmf (-5) (-5) (-5 / 10) (-1 / 10)"
| "bg_rate_mf Rate_Z = trimf (-15 / 100) 0 (15 / 100)"
| "bg_rate_mf Rate_P = trimf (1 / 10) (4 / 10) (7 / 10)"
| "bg_rate_mf Rate_VP = trapmf (6 / 10) 1 5 5"

text \<open>
  The six output sets (\<^verbatim>\<open>pre_dose\<close> of stage 1, lines 45 to 50, and
  \<^verbatim>\<open>insulin_dose\<close> of stage 2, lines 109 to 114, have the same breakpoints).
\<close>

fun dose_mf :: "dose_set \<Rightarrow> real \<Rightarrow> real" where
  "dose_mf Dose_Z = trimf 0 0 (2 / 100)"
| "dose_mf Dose_VL = trimf 0 (1 / 10) (2 / 10)"
| "dose_mf Dose_L = trimf (15 / 100) (3 / 10) (45 / 100)"
| "dose_mf Dose_M = trimf (4 / 10) (55 / 100) (7 / 10)"
| "dose_mf Dose_H = trimf (6 / 10) (8 / 10) (9 / 10)"
| "dose_mf Dose_VH = trimf (85 / 100) (95 / 100) 1"

text \<open>The input sets of \<^verbatim>\<open>_build_fis2\<close>, lines 96 to 106.\<close>

fun pre_dose_mf :: "dose_set \<Rightarrow> real \<Rightarrow> real" where
  "pre_dose_mf Dose_Z = trimf 0 0 (5 / 100)"
| "pre_dose_mf Dose_VL = trimf 0 (2 / 10) (4 / 10)"
| "pre_dose_mf Dose_L = trimf (3 / 10) (5 / 10) (7 / 10)"
| "pre_dose_mf Dose_M = trimf (6 / 10) (85 / 100) (11 / 10)"
| "pre_dose_mf Dose_H = trimf 1 (12 / 10) (14 / 10)"
| "pre_dose_mf Dose_VH = trimf (13 / 10) (145 / 100) (15 / 10)"

fun bg_accel_mf :: "accel_set \<Rightarrow> real \<Rightarrow> real" where
  "bg_accel_mf Acc_N = trapmf (-1) (-1) (-15 / 1000) (-2 / 1000)"
| "bg_accel_mf Acc_Z = trimf (-1 / 100) 0 (1 / 100)"
| "bg_accel_mf Acc_P = trapmf (2 / 1000) (15 / 1000) 1 1"

text \<open>The fifteen rules of \<^verbatim>\<open>_build_fis1\<close>, lines 53 to 78, in the source's order.\<close>

definition fis1_rules :: "(level_set, rate_set, dose_set) rule list" where
  "fis1_rules =
     [ (In1 Lvl_VL, Dose_Z),
       (And (In1 Lvl_L) (Or (In2 Rate_N) (In2 Rate_Z)), Dose_Z),
       (And (In1 Lvl_L) (In2 Rate_P), Dose_Z),
       (And (In1 Lvl_L) (In2 Rate_VP), Dose_VL),
       (And (In1 Lvl_N) (In2 Rate_N), Dose_Z),
       (And (In1 Lvl_N) (In2 Rate_Z), Dose_VL),
       (And (In1 Lvl_N) (In2 Rate_P), Dose_M),
       (And (In1 Lvl_N) (In2 Rate_VP), Dose_H),
       (And (In1 Lvl_H) (In2 Rate_N), Dose_L),
       (And (In1 Lvl_H) (In2 Rate_Z), Dose_M),
       (And (In1 Lvl_H) (In2 Rate_P), Dose_VH),
       (And (In1 Lvl_H) (In2 Rate_VP), Dose_VH),
       (And (In1 Lvl_VH) (In2 Rate_N), Dose_M),
       (And (In1 Lvl_VH) (In2 Rate_Z), Dose_H),
       (And (In1 Lvl_VH) (Or (In2 Rate_P) (In2 Rate_VP)), Dose_VH) ]"

text \<open>The fifteen rules of \<^verbatim>\<open>_build_fis2\<close>, lines 117 to 144.\<close>

definition fis2_rules :: "(dose_set, accel_set, dose_set) rule list" where
  "fis2_rules =
     [ (In1 Dose_Z, Dose_Z),
       (And (In1 Dose_VL) (In2 Acc_N), Dose_Z),
       (And (In1 Dose_VL) (In2 Acc_Z), Dose_VL),
       (And (In1 Dose_VL) (In2 Acc_P), Dose_L),
       (And (In1 Dose_L) (In2 Acc_N), Dose_VL),
       (And (In1 Dose_L) (In2 Acc_Z), Dose_L),
       (And (In1 Dose_L) (In2 Acc_P), Dose_M),
       (And (In1 Dose_M) (In2 Acc_N), Dose_L),
       (And (In1 Dose_M) (In2 Acc_Z), Dose_M),
       (And (In1 Dose_M) (In2 Acc_P), Dose_H),
       (And (In1 Dose_H) (In2 Acc_N), Dose_M),
       (And (In1 Dose_H) (In2 Acc_Z), Dose_H),
       (And (In1 Dose_H) (In2 Acc_P), Dose_VH),
       (And (In1 Dose_VH) (In2 Acc_N), Dose_H),
       (And (In1 Dose_VH) (Or (In2 Acc_Z) (In2 Acc_P)), Dose_VH) ]"

text \<open>
  \<^verbatim>\<open>HierarchicalFIS.__init__(self, max_dose=0.4)\<close>: the two control systems are
  determined by \<^verbatim>\<open>max_dose\<close>, the upper end of the output universes
  \<^verbatim>\<open>np.arange(0, self.max_dose + 0.1, 0.01)\<close>. The two simulation objects
  \<^verbatim>\<open>self.fis1\<close> and \<^verbatim>\<open>self.fis2\<close> are built here, once, and every call of
  \<^verbatim>\<open>compute_dose\<close> uses them again: \<open>fis1_out\<close> and \<open>fis2_out\<close> are the
  entries \<^verbatim>\<open>output['pre_dose']\<close> and \<^verbatim>\<open>output['insulin_dose']\<close> of their
  output dictionaries, \<open>None\<close> for an entry that is missing.
\<close>

record HierarchicalFIS =
  max_dose :: real
  fis1_out :: "real option"
  fis2_out :: "real option"

definition HierarchicalFIS_init :: "real \<Rightarrow> HierarchicalFIS" where
  "HierarchicalFIS_init md = \<lparr> max_dose = md, fis1_out = None, fis2_out = None \<rparr>"

definition dose_universe :: "HierarchicalFIS \<Rightarrow> real list" where
  "dose_universe self = arange 0 (max_dose self + 1 / 10) (1 / 100)"

text \<open>
  What \<^verbatim>\<open>self.fis1.compute()\<close> and \<^verbatim>\<open>self.fis2.compute()\<close> infer from
  their inputs: the crisp value, or \<open>None\<close> when the stage yields no defined output.
\<close>

definition fis1_result :: "HierarchicalFIS \<Rightarrow> real \<Rightarrow> real \<Rightarrow> real option" where
  "fis1_result self bg_level bg_rate =
     aggregate_and_defuzzify (dose_universe self) dose_mf
       (fire (\<lambda>s. bg_level_mf s bg_level) (\<lambda>s. bg_rate_mf s bg_rate) fis1_rules)"

definition fis2_result :: "HierarchicalFIS \<Rightarrow> real \<Rightarrow> real \<Rightarrow> real option" where
  "fis2_result self pre_dose bg_accel =
     aggregate_and_defuzzify (dose_universe self) dose_mf
       (fire (\<lambda>s. pre_dose_mf s pre_dose) (\<lambda>s. bg_accel_mf s bg_accel) fis2_rules)"

text \<open>
  Modelled from the spec: what \<^verbatim>\<open>compute()\<close> does to the output dictionary is
  the library's. Section 3 of the specification gives an inference stage a cached last
  output that is kept across invocations: a defined result replaces the entry; when the
  stage yields no defined output nothing is assigned, and the entry, if there is one,
  is what an earlier call left.
\<close>

definition compute_output :: "real option \<Rightarrow> real option \<Rightarrow> real option" where
  "compute_output cached result = (case result of Some v \<Rightarrow> Some v | None \<Rightarrow> cached)"

text \<open>The two warnings \<^verbatim>\<open>compute_dose\<close> prints, with the values they show.\<close>

datatype warning = FIS1_failed real real | FIS2_failed real real

text \<open>
  \<^verbatim>\<open>
  def compute_dose(self, bg_level, bg_rate, bg_accel):
      bg_level = np.clip(bg_level, 0, 400)
      bg_rate = np.clip(bg_rate, -5, 5)
      bg_accel = np.clip(bg_accel, -1, 1)
      self.fis1.input['bg_level'] = bg_level
      self.fis1.input['bg_rate'] = bg_rate
      self.fis1.compute()
      try:
          pre_dose = self.fis1.output['pre_dose']
      except KeyError:
          print(f"Warning: FIS1 failed for bg_level={bg_level}, bg_rate={bg_rate}")
          pre_dose = 0
      pre_dose = np.clip(pre_dose, 0, self.max_dose)
      self.fis2.input['pre_dose'] = pre_dose
      self.fis2.input['bg_accel'] = bg_accel
      self.fis2.compute()
      try:
          insulin_dose = self.fis2.output['insulin_dose']
      except KeyError:
          print(f"Warning: FIS2 failed for pre_dose={pre_dose}, bg_accel={bg_accel}")
          insulin_dose = 0
      insulin_dose = np.clip(insulin_dose, 0, self.max_dose)
      return insulin_dose
  \<close>
  The lookup raises \<^verbatim>\<open>KeyError\<close> for a missing entry only. The model returns the
  dose, the warnings printed, in order, and the object as the call leaves it.
\<close>

definition compute_dose ::
  "HierarchicalFIS \<Rightarrow> real \<Rightarrow> real \<Rightarrow> real \<Rightarrow> real \<times> warning list \<times> HierarchicalFIS" where
  "compute_dose self bg_level bg_rate bg_accel =
     (let bg_level = clip bg_level 0 400;
          bg_rate = clip bg_rate (-5) 5;
          bg_accel = clip bg_accel (-1) 1;
          out1 = compute_output (fis1_out self) (fis1_result self bg_level bg_rate);
          (pre_dose, w1) =
             (case out1 of
                Some v \<Rightarrow> (v, [])
              | None \<Rightarrow> (0, [FIS1_failed bg_level bg_rate]));
          pre_dose = clip pre_dose 0 (max_dose self);
          out2 = compute_output (fis2_out self) (fis2_result self pre_dose bg_accel);
          (insulin_dose, w2) =
             (case out2 of
                Some v \<Rightarrow> (v, [])
              | None \<Rightarrow> (0, [FIS2_failed pre_dose bg_accel]));
          insulin_dose = clip insulin_dose 0 (max_dose self)
      in (insulin_dose, w1 @ w2, self\<lparr> fis1_out := out1, fis2_out := out2 \<rparr>))"

text \<open>The pre-dose that \<^verbatim>\<open>compute_dose\<close> hands to stage 2.\<close>

definition stage1_pre_dose :: "HierarchicalFIS \<Rightarrow> real \<Rightarrow> real \<Rightarrow> real" where
  "stage1_pre_dose self bg_level bg_rate =
     clip (case compute_output (fis1_out self)
                 (fis1_result self (clip bg_level 0 400) (clip bg_rate (-5) 5)) of
             Some v \<Rightarrow> v | None \<Rightarrow> 0)
          0 (max_dose self)"

text \<open>
  The rule base read as a table: at crisp memberships (one level set and one rate set
  with membership 1, all others 0), the consequents of the rules that fire; and the
  order of the dose sets, Z below VL below L below M below H below VH.
\<close>

definition crisp :: "'a \<Rightarrow> 'a \<Rightarrow> real" where
  "crisp s s' = (if s' = s then 1 else 0)"

definition crisp_consequents :: "level_set \<Rightarrow> rate_set \<Rightarrow> dose_set list" where
  "crisp_consequents lvl rt =
     map snd (filter (\<lambda>sc. fst sc \<noteq> 0) (fire (crisp lvl) (crisp rt) fis1_rules))"

fun dose_rank :: "dose_set \<Rightarrow> nat" where
  "dose_rank Dose_Z = 0"
| "dose_rank Dose_VL = 1"
| "dose_rank Dose_L = 2"
| "dose_rank Dose_M = 3"
| "dose_rank Dose_H = 4"
| "dose_rank Dose_VH = 5"

section \<open>Controller state (class HierarchicalFuzzyController)\<close>

text \<open>
  \<^verbatim>\<open>Action(basal, bolus)\<close> of simglucose, and the attributes of the controller
  object, prefixed \<open>hc_\<close>. \<^verbatim>\<open>prev_bg\<close> is \<^verbatim>\<open>None\<close> until the first
  observation. The attribute \<^verbatim>\<open>prev_state\<close> does not exist until \<^verbatim>\<open>reset\<close>
  assigns it: \<open>None\<close> stands for the missing attribute.
\<close>

record Action =
  basal :: real
  bolus :: real

record HierarchicalFuzzyController =
  hc_init_state :: real
  hc_state :: real
  hc_fis :: HierarchicalFIS
  hc_prev_bg :: "real option"
  hc_prev_rate :: real
  hc_prev_state :: "real option"

text \<open>
  \<^verbatim>\<open>
  def __init__(self, init_state):
      self.init_state = init_state
      self.state = init_state
      self.fis = HierarchicalFIS()
      self.prev_bg = None
      self.prev_rate = 0
  \<close>
\<close>

definition HierarchicalFuzzyController_init :: "real \<Rightarrow> HierarchicalFuzzyController" where
  "HierarchicalFuzzyController_init init_state =
     \<lparr> hc_init_state = init_state, hc_state = init_state,
       hc_fis = HierarchicalFIS_init (2 / 5),
       hc_prev_bg = None, hc_prev_rate = 0, hc_prev_state = None \<rparr>"

text \<open>
  What \<^verbatim>\<open>policy\<close> can raise or produce instead of a finite action: the sample time
  is \<^verbatim>\<open>kwargs.get('sample_time')\<close>, which is \<^verbatim>\<open>None\<close> when the caller passes
  none (\<open>TypeError\<close> at the first division); a Python float divided by 0 raises
  \<open>ZeroDivisionError\<close>; the NumPy dose divided by 0 is infinite or NaN, which the real
  numbers of the model do not have (\<open>NonFinite\<close>).
\<close>

datatype py_error = TypeError | ZeroDivisionError | NonFinite

text \<open>
  The rate and acceleration \<^verbatim>\<open>policy\<close> passes to \<^verbatim>\<open>compute_dose\<close>:
  \<^verbatim>\<open>
  if self.prev_bg is None:
      rate=0
      accel=0
  else:
      rate = (bg - self.prev_bg) / sample_time
      accel = (rate - self.prev_rate) / sample_time
  \<close>
\<close>

definition policy_rate_accel ::
  "HierarchicalFuzzyController \<Rightarrow> real \<Rightarrow> real option \<Rightarrow> py_error + (real \<times> real)" where
  "policy_rate_accel self bg sample_time =
     (case hc_prev_bg self of
        None \<Rightarrow> Inr (0, 0)
      | Some prev_bg \<Rightarrow>
          (case sample_time of
             None \<Rightarrow> Inl TypeError
           | Some st \<Rightarrow>
               if st = 0 then Inl ZeroDivisionError
               else let rate = (bg - prev_bg) / st;
                        accel = (rate - hc_prev_rate self) / st
                    in Inr (rate, accel)))"

text \<open>
  \<^verbatim>\<open>
  def policy(self, observation, reward, done, **kwargs):
      sample_time = kwargs.get('sample_time')
      bg = float(observation.CGM)
      ... rate, accel as above ...
      self.prev_bg = bg
      self.prev_rate = rate
      dose = self.fis.compute_dose(bg, rate, accel)
      basal = dose/sample_time
      bolus = 0
      return Action(basal=basal, bolus=bolus)
  \<close>
  The model returns the action or the error, the object as the call leaves it, and the
  warnings printed.
\<close>

definition policy ::
  "HierarchicalFuzzyController \<Rightarrow> real \<Rightarrow> real option
     \<Rightarrow> (py_error + Action) \<times> HierarchicalFuzzyController \<times> warning list" where
  "policy self cgm sample_time =
     (case policy_rate_accel self cgm sample_time of
        Inl e \<Rightarrow> (Inl e, self, [])
      | Inr ra \<Rightarrow>
          let self' = self\<lparr> hc_prev_bg := Some cgm, hc_prev_rate := fst ra \<rparr>;
              dw = compute_dose (hc_fis self') cgm (fst ra) (snd ra);
              self'' = self'\<lparr> hc_fis := snd (snd dw) \<rparr>
          in (case sample_time of
                None \<Rightarrow> (Inl TypeError, self'', fst (snd dw))
              | Some st \<Rightarrow>
                  if st = 0 then (Inl NonFinite, self'', fst (snd dw))
                  else (Inr \<lparr> basal = fst dw / st, bolus = 0 \<rparr>, self'', fst (snd dw))))"

text \<open>
  \<^verbatim>\<open>
  def reset(self):
      self.state = self.init_state
      self.prev_bg = None
      self.prev_state = 0
  \<close>
\<close>

definition reset :: "HierarchicalFuzzyController \<Rightarrow> HierarchicalFuzzyController" where
  "reset self = self\<lparr> hc_state := hc_init_state self, hc_prev_bg := None,
                       hc_prev_state := Some 0 \<rparr>"

text \<open>
  The object after two observations, 100 and then 110 mg/dL, five minutes apart.
\<close>

definition after_two_observations :: HierarchicalFuzzyController where
  "after_two_observations =
     fst (snd (policy (fst (snd (policy (HierarchicalFuzzyController_init 0) 100 (Some 5))))
                      110 (Some 5)))"

section \<open>Closed-loop simulation driver (simulation.py)\<close>

text \<open>
  The controller object handed to \<^verbatim>\<open>simulate_controller\<close>, with its own state
  \<open>'c\<close>. The driver probes it:
  \<^verbatim>\<open>
  if hasattr(controller, 'compute_dose'):
      try:
          doses[i] = controller.compute_dose(G, bg_rate, bg_accel)
      except TypeError:
          doses[i] = controller.compute_dose(G, patient.dt)
  \<close>
  \<open>ThreeArg\<close> is a \<^verbatim>\<open>compute_dose\<close> that takes level, rate and acceleration,
  \<open>TwoArg\<close> one that takes the level and the step only (the call with three arguments
  raises \<^verbatim>\<open>TypeError\<close> before it runs), \<open>NoComputeDose\<close> an object without the
  method, for which the dose stays at its initial 0.
\<close>

datatype 'c controller =
    ThreeArg "'c \<Rightarrow> real \<Rightarrow> real \<Rightarrow> real \<Rightarrow> real \<times> 'c"
  | TwoArg "'c \<Rightarrow> real \<Rightarrow> real \<Rightarrow> real \<times> 'c"
  | NoComputeDose

text \<open>The local variables of the loop, the patient and the controller's state.\<close>

record 'c loop_state =
  ls_doses :: "real list"
  ls_G_trace :: "real list"
  ls_G_prev :: real
  ls_rate_prev :: real
  ls_patient :: PatientModel
  ls_ctrl :: 'c

text \<open>
  The glucose value, rate and acceleration that iteration \<open>i\<close> computes from the loop
  state it starts in:
  \<^verbatim>\<open>
  G = G_trace[i-1] if i > 0 else 90
  bg_rate = (G - G_prev) / (patient.dt * 60)
  bg_accel = (bg_rate - rate_prev) / (patient.dt * 60)
  \<close>
\<close>

definition controller_inputs :: "'c loop_state \<Rightarrow> nat \<Rightarrow> real \<times> real \<times> real" where
  "controller_inputs s i =
     (let g = (if i > 0 then ls_G_trace s ! (i - 1) else 90);
          bg_rate = (g - ls_G_prev s) / (pm_dt (ls_patient s) * 60);
          bg_accel = (bg_rate - ls_rate_prev s) / (pm_dt (ls_patient s) * 60)
      in (g, bg_rate, bg_accel))"

text \<open>
  One iteration of
  \<^verbatim>\<open>
  for i, t in enumerate(times):
      meal_rate = 0
      for mt in meal_times:
          meal_rate += meal_absorption(t, mt, meals[mt], tau=30)
      ... G, bg_rate, bg_accel, doses[i] as above ...
      G_prev, rate_prev = G, bg_rate
      G_trace[i] = patient.step(doses[i], meal_rate)
  \<close>
\<close>

definition driver_body ::
  "ode_solver \<Rightarrow> 'c controller \<Rightarrow> meal_schedule \<Rightarrow> nat \<times> real \<Rightarrow> 'c loop_state \<Rightarrow> 'c loop_state" where
  "driver_body odeint ctl meal_sched it s =
     (case it of (i, tm) \<Rightarrow>
        let meal_rate = meal_rate_at tm meal_sched 30;
            inp = controller_inputs s i;
            g = fst inp; bg_rate = fst (snd inp); bg_accel = snd (snd inp);
            dc = (case ctl of
                    ThreeArg f \<Rightarrow> f (ls_ctrl s) g bg_rate bg_accel
                  | TwoArg f \<Rightarrow> f (ls_ctrl s) g (pm_dt (ls_patient s))
                  | NoComputeDose \<Rightarrow> (ls_doses s ! i, ls_ctrl s));
            doses = (ls_doses s)[i := fst dc];
            gp = step odeint (ls_patient s) (doses ! i) meal_rate
        in \<lparr> ls_doses = doses,
             ls_G_trace = (ls_G_trace s)[i := fst gp],
             ls_G_prev = g,
             ls_rate_prev = bg_rate,
             ls_patient = snd gp,
             ls_ctrl = snd dc \<rparr>)"

text \<open>
  \<^verbatim>\<open>simulate_controller(patient, controller, meals, controller_name)\<close>. The model
  returns \<^verbatim>\<open>times, G_trace, doses\<close> and the two objects as the run leaves them.
\<close>

definition driver_init :: "PatientModel \<Rightarrow> 'c \<Rightarrow> nat \<Rightarrow> 'c loop_state" where
  "driver_init patient c0 n =
     \<lparr> ls_doses = replicate n 0, ls_G_trace = replicate n 0,
       ls_G_prev = 90, ls_rate_prev = 0, ls_patient = patient, ls_ctrl = c0 \<rparr>"

definition simulate_controller ::
  "ode_solver \<Rightarrow> PatientModel \<Rightarrow> 'c controller \<Rightarrow> 'c \<Rightarrow> meal_schedule
     \<Rightarrow> np_error + (real list \<times> real list \<times> real list \<times> PatientModel \<times> 'c)" where
  "simulate_controller odeint patient ctl c0 meal_sched =
     (if pm_dt patient = 0 then Inl ArangeZeroStep
      else
        let times = arange 0 24 (pm_dt patient);
            s = fold (driver_body odeint ctl meal_sched) (enumerate 0 times)
                     (driver_init patient c0 (length times))
        in Inr (times, ls_G_trace s, ls_doses s, ls_patient s, ls_ctrl s))"

text \<open>
  A controller that records the arguments of every call of its \<^verbatim>\<open>compute_dose\<close>
  and otherwise is the three-argument \<^verbatim>\<open>compute_dose\<close> \<open>f\<close> with its own state:
  the observer through which the driver's calls are stated. The hierarchical fuzzy
  system is the case
  \<open>f = (\<lambda>fis g r a. (fst (compute_dose fis g r a), snd (snd (compute_dose fis g r a))))\<close>.
\<close>

definition recording ::
  "('c \<Rightarrow> real \<Rightarrow> real \<Rightarrow> real \<Rightarrow> real \<times> 'c) \<Rightarrow> ((real \<times> real \<times> real) list \<times> 'c) controller" where
  "recording f =
     ThreeArg (\<lambda>s g r a. (fst (f (snd s) g r a),
                           (fst s @ [(g, r, a)], snd (f (snd s) g r a))))"

text \<open>A solver under which the patient's glucose is the constant \<open>c\<close> at every step.\<close>

definition constant_glucose :: "real \<Rightarrow> ode_solver" where
  "constant_glucose c f y t0 t1 = (c, snd y)"

text \<open>
  The arguments of the call at iteration \<open>i\<close>, read off the finished glucose trace
  \<open>gt\<close> and the recorded calls: the glucose value is the one realised by the previous
  iteration (90 at the first), the previous value and the previous rate are those of
  the previous call (90 and 0 at the first); \<open>d\<close> is the step in minutes.
\<close>

definition expected_call ::
  "real list \<Rightarrow> (real \<times> real \<times> real) list \<Rightarrow> real \<Rightarrow> nat \<Rightarrow> real \<times> real \<times> real" where
  "expected_call gt calls d i =
     (let g = (if i = 0 then 90 else gt ! (i - 1));
          g_prev = (if i = 0 then 90 else fst (calls ! (i - 1)));
          rate_prev = (if i = 0 then 0 else fst (snd (calls ! (i - 1))));
          rate = (g - g_prev) / d
      in (g, rate, (rate - rate_prev) / d))"

section \<open>Scoring: results\<close>

lemma penalised_err_sq:
  "(penalised_err r m g)\<^sup>2 = (if g < m then 100 else 1) * (g - r)\<^sup>2"
  by (simp add: penalised_err_def power2_eq_square algebra_simps)

lemma sum_list_all_zero: "(\<forall>x \<in> set xs. f x = (0::real)) \<Longrightarrow> sum_list (map f xs) = 0"
  by (induction xs) auto

text \<open>
  C4 (as the code has it). \<open>cost_function\<close> is the root mean square of the deviations
  from the reference in which the squared error term of every sample strictly below the
  floor is multiplied by 100 (the deviation by 10); on a non-empty trace
  entirely at the reference level it returns 0.
\<close>

theorem cost_function_rms_penalty_100:
  "cost_function tr r m = cost_amended tr r m \<and>
   (tr \<noteq> [] \<and> (\<forall>g \<in> set tr. g = r) \<longrightarrow> cost_function tr r m = Some 0)"
proof
  show "cost_function tr r m = cost_amended tr r m"
    by (simp add: cost_function_def cost_amended_def penalised_err_sq)
next
  show "tr \<noteq> [] \<and> (\<forall>g \<in> set tr. g = r) \<longrightarrow> cost_function tr r m = Some 0"
  proof
    assume h: "tr \<noteq> [] \<and> (\<forall>g \<in> set tr. g = r)"
    then have "\<forall>g \<in> set tr. (penalised_err r m g)\<^sup>2 = 0"
      by (simp add: penalised_err_def)
    then have "sum_list (map (\<lambda>g. (penalised_err r m g)\<^sup>2) tr) = 0"
      by (rule sum_list_all_zero)
    with h show "cost_function tr r m = Some 0"
      by (simp add: cost_function_def)
  qed
qed

theorem cost_function_rms_penalty_100_witness:
  "cost_function [90, 90, 90] 90 80 = cost_amended [90, 90, 90] 90 80 \<and>
   cost_function [90, 90, 90] 90 80 = Some 0"
proof -
  have h: "[90, 90, 90] \<noteq> [] \<and> (\<forall>g \<in> set [90, 90, 90::real]. g = 90)"
    by simp
  from cost_function_rms_penalty_100 [of "[90, 90, 90]" 90 80] h show ?thesis
    by blast
qed

text \<open>
  The claim as worded (factor 10 on the squared term) fails on the one-sample trace
  \<open>[70]\<close>: the code returns \<open>sqrt (100 * 20\<^sup>2) = 200\<close>, the worded cost is
  \<open>sqrt (10 * 20\<^sup>2) = sqrt 4000\<close>.
\<close>

theorem cost_function_not_factor_10_counterexample:
  "cost_function [70] 90 80 = Some 200 \<and> cost_function [70] 90 80 \<noteq> cost_spec [70] 90 80"
proof -
  have a: "sqrt 40000 = 200"
    using real_sqrt_abs [of 200] by simp
  have b: "sqrt 4000 \<noteq> 200"
  proof
    assume "sqrt 4000 = 200"
    then have "(sqrt 4000)\<^sup>2 = 200\<^sup>2" by simp
    then show False by simp
  qed
  show ?thesis
    using a b by (simp add: cost_function_def cost_spec_def penalised_err_def)
qed

section \<open>Patient model: results\<close>

text \<open>
  C8 (as the code has it). Constructing a \<open>PatientModel\<close> validates nothing: every
  initial glucose, initial insulin and time step is stored unchanged, and a non-positive
  time step is replaced inside \<open>dynamics\<close> by a dosing interval of one minute, so that
  the interval \<open>dynamics\<close> divides by is always positive.
\<close>

theorem PatientModel_init_stores_unchecked:
  "pm_G (PatientModel_init g i d) = g \<and> pm_X (PatientModel_init g i d) = 0 \<and>
   pm_I (PatientModel_init g i d) = i \<and> pm_Ib (PatientModel_init g i d) = i \<and>
   pm_dt (PatientModel_init g i d) = d \<and>
   dt_minutes (PatientModel_init g i d) = (if 0 < d then d * 60 else 1) \<and>
   0 < dt_minutes self"
  by (simp add: PatientModel_init_def dt_minutes_def Let_def)

text \<open>
  The claim as worded fails at the configuration \<open>(-50, -1, -1)\<close>: negative glucose,
  negative insulin and a negative time step are accepted and stored, and the time step
  is coerced to one minute without any report.
\<close>

theorem PatientModel_init_accepts_invalid_counterexample:
  "pm_G (PatientModel_init (-50) (-1) (-1)) = -50 \<and>
   pm_I (PatientModel_init (-50) (-1) (-1)) = -1 \<and>
   pm_dt (PatientModel_init (-50) (-1) (-1)) = -1 \<and>
   dt_minutes (PatientModel_init (-50) (-1) (-1)) = 1"
  by (simp add: PatientModel_init_def dt_minutes_def)

subsection \<open>The batch episode leaves the state fields alone\<close>


lemma dt_minutes_pos: "0 < dt_minutes self"
  by (simp add: dt_minutes_def Let_def)

lemma simulate_body_self:
  "ss_self (simulate_body od d ms (i, tm) s) = (ss_self s)\<lparr> pm_t := tm + pm_dt (ss_self s) \<rparr>"
  by (simp add: simulate_body_def Let_def)

lemma fold_simulate_self:
  "ss_self (fold (simulate_body od d ms) its s) =
     (if its = [] then ss_self s
      else (ss_self s)\<lparr> pm_t := snd (last its) + pm_dt (ss_self s) \<rparr>)"
proof (induction its arbitrary: s)
  case Nil
  then show ?case by simp
next
  case (Cons it its)
  obtain i tm where it: "it = (i, tm)" by (cases it)
  show ?case
    by (simp add: Cons.IH it simulate_body_self)
qed

lemma enumerate_Nil_iff: "enumerate n xs = [] \<longleftrightarrow> xs = []"
  by (cases xs) simp_all

lemma last_enumerate: "xs \<noteq> [] \<Longrightarrow> snd (last (enumerate n xs)) = last xs"
  by (induction xs arbitrary: n) (auto simp: enumerate_Nil_iff)


lemma step_eq:
  "step od self dose mr =
     (let sol = od (\<lambda>y tm. dynamics self y tm dose mr) (pm_G self, pm_X self, pm_I self) 0 (pm_dt self)
      in (fst sol, self\<lparr> pm_G := fst sol, pm_X := fst (snd sol), pm_I := snd (snd sol),
                          pm_t := pm_t self + pm_dt self \<rparr>))"
  by (simp add: step_def Let_def)

lemma simulate_self:
  assumes "pm_dt self \<noteq> 0"
  shows "\<exists>Gt It. simulate od self doses ms =
           Inr ((if arange 0 24 (pm_dt self) = [] then self
                 else self\<lparr> pm_t := last (arange 0 24 (pm_dt self)) + pm_dt self \<rparr>), Gt, It)"
  using assms
  by (simp add: simulate_def Let_def fold_simulate_self enumerate_Nil_iff last_enumerate)


text \<open>
  C10. \<open>simulate\<close> returns for every non-zero time step, and the object it leaves
  behind differs from the one it was called on in the field \<open>t\<close> only: \<open>G\<close>, \<open>X\<close>
  and \<open>I\<close> keep their values, and \<open>t\<close> is the last time point plus the step (when
  there is a time point). \<open>step\<close> stores the solver's result in \<open>G\<close>, \<open>X\<close>, \<open>I\<close>,
  returns the new \<open>G\<close> and adds the step to \<open>t\<close>.
\<close>

theorem simulate_frame:
  "(pm_dt self \<noteq> 0 \<longrightarrow>
      (\<exists>self' Gt It. simulate od self doses ms = Inr (self', Gt, It) \<and>
         pm_G self' = pm_G self \<and> pm_X self' = pm_X self \<and> pm_I self' = pm_I self \<and>
         self' = self\<lparr> pm_t := pm_t self' \<rparr> \<and>
         pm_t self' = (if arange 0 24 (pm_dt self) = [] then pm_t self
                       else last (arange 0 24 (pm_dt self)) + pm_dt self))) \<and>
   (let sol = od (\<lambda>y tm. dynamics self y tm dose mr) (pm_G self, pm_X self, pm_I self) 0 (pm_dt self);
        self'' = snd (step od self dose mr)
    in fst (step od self dose mr) = fst sol \<and>
       (pm_G self'', pm_X self'', pm_I self'') = sol \<and>
       pm_t self'' = pm_t self + pm_dt self)"
proof (intro conjI impI)
  assume "pm_dt self \<noteq> 0"
  from simulate_self [OF this, of od doses ms]
  show "\<exists>self' Gt It. simulate od self doses ms = Inr (self', Gt, It) \<and>
         pm_G self' = pm_G self \<and> pm_X self' = pm_X self \<and> pm_I self' = pm_I self \<and>
         self' = self\<lparr> pm_t := pm_t self' \<rparr> \<and>
         pm_t self' = (if arange 0 24 (pm_dt self) = [] then pm_t self
                       else last (arange 0 24 (pm_dt self)) + pm_dt self)"
    by (cases "arange 0 24 (pm_dt self) = []") auto
next
  show "let sol = od (\<lambda>y tm. dynamics self y tm dose mr) (pm_G self, pm_X self, pm_I self) 0 (pm_dt self);
        self'' = snd (step od self dose mr)
    in fst (step od self dose mr) = fst sol \<and>
       (pm_G self'', pm_X self'', pm_I self'') = sol \<and>
       pm_t self'' = pm_t self + pm_dt self"
    by (simp add: step_eq Let_def)
qed

lemma arange_last_5min: "arange 0 24 (5 / 60) \<noteq> [] \<and> last (arange 0 24 (5 / 60)) = 287 * (5 / 60)"
  by (simp add: arange_def last_map)

theorem simulate_frame_witness:
  "\<exists>self' Gt It. simulate euler (PatientModel_init 90 15 (5 / 60)) [] meals = Inr (self', Gt, It) \<and>
      pm_G self' = 90 \<and> pm_X self' = 0 \<and> pm_I self' = 15 \<and> pm_t self' = 24"
proof -
  have h: "pm_dt (PatientModel_init 90 15 (5 / 60)) \<noteq> 0"
    by (simp add: PatientModel_init_def)
  from simulate_frame [of "PatientModel_init 90 15 (5 / 60)" euler "[]" meals] h
  obtain self' Gt It where
    "simulate euler (PatientModel_init 90 15 (5 / 60)) [] meals = Inr (self', Gt, It)"
    "pm_G self' = pm_G (PatientModel_init 90 15 (5 / 60))"
    "pm_X self' = pm_X (PatientModel_init 90 15 (5 / 60))"
    "pm_I self' = pm_I (PatientModel_init 90 15 (5 / 60))"
    "pm_t self' = (if arange 0 24 (pm_dt (PatientModel_init 90 15 (5 / 60))) = []
                   then pm_t (PatientModel_init 90 15 (5 / 60))
                   else last (arange 0 24 (pm_dt (PatientModel_init 90 15 (5 / 60))))
                        + pm_dt (PatientModel_init 90 15 (5 / 60)))"
    by blast
  moreover have "pm_dt (PatientModel_init 90 15 (5 / 60)) = 5 / 60"
    by (simp add: PatientModel_init_def)
  ultimately show ?thesis
    using arange_last_5min by (simp add: PatientModel_init_def)
qed


subsection \<open>Meal absorption\<close>

lemma fold_add_sum_list:
  "fold (\<lambda>x acc. acc + g x) xs (a::real) = a + sum_list (map g xs)"
  by (induction xs arbitrary: a) simp_all

lemma sum_list_insort: "sum_list (map g (insort x xs)) = g x + (sum_list (map g xs) :: real)"
  by (induction xs) simp_all

lemma sum_list_sort: "sum_list (map g (sort xs)) = (sum_list (map g xs) :: real)"
  by (induction xs) (simp_all add: sum_list_insort)

lemma meals_lookup_distinct:
  "distinct (map fst ms) \<Longrightarrow> (mt, c) \<in> set ms \<Longrightarrow> meals_lookup ms mt = c"
  by (simp add: meals_lookup_def)

lemma meal_rate_at_sum:
  assumes "distinct (map fst ms)"
  shows "meal_rate_at tm ms tau = (\<Sum>(mt, c) \<leftarrow> ms. meal_absorption tm mt c tau)"
proof -
  have "meal_rate_at tm ms tau
      = sum_list (map (\<lambda>mt. meal_absorption tm mt (meals_lookup ms mt) tau) (map fst ms))"
    by (simp add: meal_rate_at_def fold_add_sum_list sum_list_sort)
  also have "\<dots> = sum_list (map (\<lambda>p. meal_absorption tm (fst p) (meals_lookup ms (fst p)) tau) ms)"
    by (simp add: comp_def)
  also have "\<dots> = sum_list (map (\<lambda>p. meal_absorption tm (fst p) (snd p) tau) ms)"
  proof -
    have "\<And>p. p \<in> set ms \<Longrightarrow> meals_lookup ms (fst p) = snd p"
      using assms meals_lookup_distinct [of ms] by (metis prod.collapse)
    then show ?thesis
      by (intro arg_cong [where f = sum_list] map_cong refl) simp
  qed
  finally show ?thesis by (simp add: case_prod_unfold)
qed

lemma absorbed_deriv:
  assumes "tau \<noteq> 0"
  shows "((\<lambda>s. a * (1 - exp (- s / tau))) has_real_derivative (a / tau) * exp (- s / tau)) (at s)"
  using assms by (auto intro!: derivative_eq_intros simp: field_simps)

lemma exp_neg_tendsto:
  assumes "0 < (tau::real)"
  shows "((\<lambda>s. exp (- s / tau)) \<longlongrightarrow> 0) at_top"
proof -
  have "filterlim (\<lambda>s::real. s / tau) at_top at_top"
  proof -
    have "filterlim (\<lambda>s::real. s * inverse tau) at_top at_top"
      using assms
      by (intro filterlim_at_top_mult_tendsto_pos [OF tendsto_const _ filterlim_ident]) simp
    then show ?thesis by (simp add: divide_inverse)
  qed
  then have "filterlim (\<lambda>s::real. - (s / tau)) at_bot at_top"
    by (rule filterlim_compose [OF filterlim_uminus_at_bot_at_top])
  then have "((\<lambda>s. exp (- (s / tau))) \<longlongrightarrow> 0) at_top"
    by (rule filterlim_compose [OF exp_at_bot])
  then show ?thesis by simp
qed

lemma absorbed_limit:
  assumes "0 < (tau::real)"
  shows "((\<lambda>s. a * (1 - exp (- s / tau))) \<longlongrightarrow> a) at_top"
proof -
  have "((\<lambda>s. a * (1 - exp (- s / tau))) \<longlongrightarrow> a * (1 - 0)) at_top"
    by (intro tendsto_intros exp_neg_tendsto assms)
  then show ?thesis by simp
qed



text \<open>
  C6. For \<open>0 < tau\<close>, \<open>meal_absorption\<close> is 0 before the meal time and
  \<open>(carbs * 3.5 / tau) * exp (- minutes since the meal / tau)\<close> from the meal time on.
  Its integral over infinite time is \<open>carbs * 3.5\<close>: the kernel, as a function of the
  minutes \<open>s\<close> since the meal, has an antiderivative \<open>F\<close> on \<open>[0, \<infinity>)\<close> with
  \<open>F 0 = 0\<close> and \<open>F s \<rightarrow> carbs * 3.5\<close> as \<open>s \<rightarrow> \<infinity>\<close>. The meal rate the loops
  compute at an instant is the sum of the kernel over the scheduled meals.
\<close>

theorem meal_absorption_kernel:
  assumes "0 < tau" and "distinct (map fst ms)"
  shows "(tm < mt \<longrightarrow> meal_absorption tm mt c tau = 0) \<and>
         (mt \<le> tm \<longrightarrow>
            meal_absorption tm mt c tau = (c * (35 / 10) / tau) * exp (- ((tm - mt) * 60) / tau)) \<and>
         (\<exists>F. F 0 = 0 \<and>
              (\<forall>s\<ge>0. (F has_real_derivative meal_absorption (mt + s / 60) mt c tau) (at s)) \<and>
              (F \<longlongrightarrow> c * (35 / 10)) at_top) \<and>
         meal_rate_at tm ms tau = (\<Sum>(m, g) \<leftarrow> ms. meal_absorption tm m g tau)"
proof (intro conjI)
  show "tm < mt \<longrightarrow> meal_absorption tm mt c tau = 0"
    by (simp add: meal_absorption_def)
  show "mt \<le> tm \<longrightarrow>
          meal_absorption tm mt c tau = (c * (35 / 10) / tau) * exp (- ((tm - mt) * 60) / tau)"
  proof
    assume "mt \<le> tm"
    then have "\<not> tm < mt" by simp
    then show "meal_absorption tm mt c tau
                 = (c * (35 / 10) / tau) * exp (- ((tm - mt) * 60) / tau)"
      unfolding meal_absorption_def Let_def by (simp only: if_False)
  qed
  show "\<exists>F. F 0 = 0 \<and>
          (\<forall>s\<ge>0. (F has_real_derivative meal_absorption (mt + s / 60) mt c tau) (at s)) \<and>
          (F \<longlongrightarrow> c * (35 / 10)) at_top"
  proof (intro exI conjI allI impI)
    let ?F = "\<lambda>s. (c * (35 / 10)) * (1 - exp (- s / tau))"
    show "?F 0 = 0" by simp
    show "(?F \<longlongrightarrow> c * (35 / 10)) at_top"
      using assms(1) by (rule absorbed_limit)
    fix s :: real
    assume "0 \<le> s"
    then have "meal_absorption (mt + s / 60) mt c tau = (c * (35 / 10) / tau) * exp (- s / tau)"
      by (simp add: meal_absorption_def Let_def)
    then show "(?F has_real_derivative meal_absorption (mt + s / 60) mt c tau) (at s)"
      using absorbed_deriv [of tau "c * (35 / 10)" s] assms(1) by simp
  qed
  show "meal_rate_at tm ms tau = (\<Sum>(m, g) \<leftarrow> ms. meal_absorption tm m g tau)"
    using assms(2) by (rule meal_rate_at_sum)
qed

theorem meal_absorption_kernel_witness:
  "meal_absorption 6 7 50 30 = 0 \<and>
   meal_absorption 8 7 50 30 = (50 * (35 / 10) / 30) * exp (- 2) \<and>
   (\<exists>F :: real \<Rightarrow> real. F 0 = 0 \<and> (F \<longlongrightarrow> 175) at_top) \<and>
   meal_rate_at 8 meals 30 =
     meal_absorption 8 7 50 30 + meal_absorption 8 12 60 30 + meal_absorption 8 18 70 30"
proof -
  have h1: "(0::real) < 30" by simp
  have h2: "distinct (map fst meals)" by (simp add: meals_def)
  have a: "meal_absorption 6 7 50 30 = 0"
    using meal_absorption_kernel [OF h1 h2, of 6 7 50] by simp
  have b: "meal_absorption 8 7 50 30 = (50 * (35 / 10) / 30) * exp (- 2)"
    using meal_absorption_kernel [OF h1 h2, of 8 7 50] by simp
  have c: "\<exists>F :: real \<Rightarrow> real. F 0 = 0 \<and> (F \<longlongrightarrow> 175) at_top"
    using meal_absorption_kernel [OF h1 h2, of 8 7 50] by auto
  have d: "meal_rate_at 8 meals 30 =
     meal_absorption 8 7 50 30 + meal_absorption 8 12 60 30 + meal_absorption 8 18 70 30"
    using meal_absorption_kernel [OF h1 h2, of 8 7 50] by (simp add: meals_def)
  from a b c d show ?thesis by blast
qed

section \<open>Hierarchical fuzzy controller: results\<close>

subsection \<open>Clamping\<close>

lemma clip_bounds: "lo \<le> hi \<Longrightarrow> lo \<le> clip x lo hi \<and> clip x lo hi \<le> hi"
  by (simp add: clip_def)

lemma clip_id: "lo \<le> x \<Longrightarrow> x \<le> hi \<Longrightarrow> clip x lo hi = x"
  by (simp add: clip_def)

lemma compute_output_simps:
  "compute_output cached (Some v) = Some v" "compute_output cached None = cached"
  by (simp_all add: compute_output_def)

lemma compute_dose_fst:
  "fst (compute_dose f l r a) =
     clip (case compute_output (fis2_out f)
                 (fis2_result f (stage1_pre_dose f l r) (clip a (-1) 1)) of
             Some v \<Rightarrow> v | None \<Rightarrow> 0)
          0 (max_dose f)"
  by (simp add: compute_dose_def stage1_pre_dose_def Let_def split: option.split prod.split)

lemma compute_dose_warnings:
  "fst (snd (compute_dose f l r a)) =
     (case compute_output (fis1_out f) (fis1_result f (clip l 0 400) (clip r (-5) 5)) of
        Some v \<Rightarrow> [] | None \<Rightarrow> [FIS1_failed (clip l 0 400) (clip r (-5) 5)]) @
     (case compute_output (fis2_out f)
             (fis2_result f (stage1_pre_dose f l r) (clip a (-1) 1)) of
        Some v \<Rightarrow> [] | None \<Rightarrow> [FIS2_failed (stage1_pre_dose f l r) (clip a (-1) 1)])"
  by (simp add: compute_dose_def stage1_pre_dose_def Let_def split: option.split prod.split)

lemma compute_dose_object:
  "snd (snd (compute_dose f l r a)) =
     f\<lparr> fis1_out := compute_output (fis1_out f)
                       (fis1_result f (clip l 0 400) (clip r (-5) 5)),
        fis2_out := compute_output (fis2_out f)
                       (fis2_result f (stage1_pre_dose f l r) (clip a (-1) 1)) \<rparr>"
  by (simp add: compute_dose_def stage1_pre_dose_def Let_def split: option.split prod.split)

subsection \<open>Rules that do not fire do not count\<close>

lemma trimf_nonneg: "a \<le> b \<Longrightarrow> b \<le> c \<Longrightarrow> 0 \<le> trimf a b c x"
  by (simp add: trimf_def)

lemma trapmf_nonneg: "a \<le> b \<Longrightarrow> b \<le> c \<Longrightarrow> c \<le> d \<Longrightarrow> 0 \<le> trapmf a b c d x"
  by (simp add: trapmf_def trimf_nonneg)

lemma dose_mf_nonneg: "0 \<le> dose_mf c x"
  by (cases c) (simp_all add: trimf_nonneg)

lemma bg_rate_mf_nonneg: "0 \<le> bg_rate_mf s x"
  by (cases s) (simp_all add: trimf_nonneg trapmf_nonneg)

lemma bg_accel_mf_nonneg: "0 \<le> bg_accel_mf s x"
  by (cases s) (simp_all add: trimf_nonneg trapmf_nonneg)

lemma fold_env_filter:
  assumes "\<And>c. 0 \<le> mf c x" and "0 \<le> (acc::real)"
  shows "fold (\<lambda>sc acc. max acc (min (fst sc) (mf (snd sc) x))) (filter (\<lambda>sc. fst sc \<noteq> 0) fired) acc
       = fold (\<lambda>sc acc. max acc (min (fst sc) (mf (snd sc) x))) fired acc"
  using assms(2)
proof (induction fired arbitrary: acc)
  case Nil
  then show ?case by simp
next
  case (Cons sc fired)
  have "0 \<le> max acc (min (fst sc) (mf (snd sc) x))"
    using Cons.prems by (simp add: le_max_iff_disj)
  moreover have "fst sc = 0 \<Longrightarrow> max acc (min (fst sc) (mf (snd sc) x)) = acc"
    using Cons.prems assms(1) [of "snd sc"] by simp
  ultimately show ?case
    using Cons.IH Cons.prems by simp
qed

lemma envelope_filter:
  assumes "\<And>c x. 0 \<le> mf c x"
  shows "envelope mf fired = envelope mf (filter (\<lambda>sc. fst sc \<noteq> 0) fired)"
  by (rule ext) (simp add: envelope_def fold_env_filter assms)

lemma aggregate_filter:
  assumes "\<And>c x. 0 \<le> mf c x"
  shows "aggregate_and_defuzzify u mf fired
       = aggregate_and_defuzzify u mf (filter (\<lambda>sc. fst sc \<noteq> 0) fired)"
  unfolding aggregate_and_defuzzify_def using envelope_filter [OF assms, where fired = fired] by simp

lemma fis1_result_fired:
  assumes "filter (\<lambda>sc. fst sc \<noteq> 0)
             (fire (\<lambda>s. bg_level_mf s l) (\<lambda>s. bg_rate_mf s r) fis1_rules) = fs"
  shows "fis1_result f l r = aggregate_and_defuzzify (dose_universe f) dose_mf fs"
  unfolding fis1_result_def
  by (subst aggregate_filter [OF dose_mf_nonneg]) (simp only: assms)

lemma fis2_result_fired:
  assumes "filter (\<lambda>sc. fst sc \<noteq> 0)
             (fire (\<lambda>s. pre_dose_mf s p) (\<lambda>s. bg_accel_mf s a) fis2_rules) = fs"
  shows "fis2_result f p a = aggregate_and_defuzzify (dose_universe f) dose_mf fs"
  unfolding fis2_result_def
  by (subst aggregate_filter [OF dose_mf_nonneg]) (simp only: assms)

subsection \<open>Evaluations on the grid\<close>

lemmas agg_eval = aggregate_and_defuzzify_def dose_universe_def HierarchicalFIS_init_def
  arange_def upt_rec envelope_def trimf_def centroid_def

lemma agg_Z_full_1:
  "aggregate_and_defuzzify (dose_universe (HierarchicalFIS_init 1)) dose_mf [(1, Dose_Z)]
     = Some (1 / 150)"
  by (simp add: agg_eval)

lemma agg_Z_third_1:
  "aggregate_and_defuzzify (dose_universe (HierarchicalFIS_init 1)) dose_mf [(1 / 3, Dose_Z)]
     = Some (7 / 900)"
  by (simp add: agg_eval)

lemma agg_Z_VL_1:
  "aggregate_and_defuzzify (dose_universe (HierarchicalFIS_init 1)) dose_mf
     [(13 / 15, Dose_Z), (1 / 30, Dose_VL)] = Some (25 / 552)"
  by (simp add: agg_eval)

lemma agg_Z_L_1:
  "aggregate_and_defuzzify (dose_universe (HierarchicalFIS_init 1)) dose_mf
     [(13 / 15, Dose_Z), (1 / 30, Dose_L)] = Some (667 / 4275)"
  by (simp add: agg_eval)

lemma agg_Z_L_2:
  "aggregate_and_defuzzify (dose_universe (HierarchicalFIS_init 1)) dose_mf
     [(38 / 45, Dose_Z), (7 / 180, Dose_L)] = Some (4654 / 27675)"
  by (simp add: agg_eval)

lemma agg_VH_04:
  "aggregate_and_defuzzify (dose_universe (HierarchicalFIS_init (2 / 5))) dose_mf [(1, Dose_VH)]
     = None"
  by (simp add: agg_eval)

lemma agg_Z_04:
  "aggregate_and_defuzzify (dose_universe (HierarchicalFIS_init (2 / 5))) dose_mf [(1, Dose_Z)]
     = Some (1 / 150)"
  by (simp add: agg_eval)

lemma agg_VL_full_04:
  "aggregate_and_defuzzify (dose_universe (HierarchicalFIS_init (2 / 5))) dose_mf [(1, Dose_VL)]
     = Some (1 / 10)"
  by (simp add: agg_eval)

lemma agg_VL_half_04:
  "aggregate_and_defuzzify (dose_universe (HierarchicalFIS_init (2 / 5))) dose_mf
     [(1 / 2, Dose_VL)] = Some (1 / 10)"
  by (simp add: agg_eval)

subsection \<open>The rules that fire at the inputs evaluated below\<close>

lemma min_zero_nonneg: "0 \<le> x \<Longrightarrow> min 0 x = (0::real)"
  by simp

lemma max_nonneg: "0 \<le> x \<Longrightarrow> 0 \<le> max x (y::real)"
  by (simp add: le_max_iff_disj)

lemma fired1_very_low:
  assumes "0 \<le> l" and "l \<le> 50"
  shows "filter (\<lambda>sc. fst sc \<noteq> 0)
           (fire (\<lambda>s. bg_level_mf s l) (\<lambda>s. bg_rate_mf s r) fis1_rules) = [(1, Dose_Z)]"
proof -
  have lv: "trapmf 0 0 50 70 l = 1" "trimf 60 75 90 l = 0" "trimf 85 100 115 l = 0"
    "trimf 110 130 160 l = 0" "trapmf 150 180 400 400 l = 0"
    using assms by (simp_all add: trapmf_def trimf_def)
  have "fire (\<lambda>s. bg_level_mf s l) (\<lambda>s. bg_rate_mf s r) fis1_rules =
          [(1, Dose_Z), (0, Dose_Z), (0, Dose_Z), (0, Dose_VL), (0, Dose_Z), (0, Dose_VL),
           (0, Dose_M), (0, Dose_H), (0, Dose_L), (0, Dose_M), (0, Dose_VH), (0, Dose_VH),
           (0, Dose_M), (0, Dose_H), (0, Dose_VH)]"
    by (simp add: fire_def fis1_rules_def lv min_zero_nonneg max_nonneg trimf_nonneg
          trapmf_nonneg)
  then show ?thesis by simp
qed

lemma fired1_very_high_plateau:
  assumes "180 \<le> l" and "l \<le> 400"
  shows "bg_level_mf s l = bg_level_mf s 180"
  using assms by (cases s) (simp_all add: trapmf_def trimf_def)

lemma fired1_90_falling:
  "filter (\<lambda>sc. fst sc \<noteq> 0)
     (fire (\<lambda>s. bg_level_mf s 90) (\<lambda>s. bg_rate_mf s (-1)) fis1_rules) = [(1 / 3, Dose_Z)]"
  by (simp add: fire_def fis1_rules_def trapmf_def trimf_def)

lemma fired1_100_falling:
  "filter (\<lambda>sc. fst sc \<noteq> 0)
     (fire (\<lambda>s. bg_level_mf s 100) (\<lambda>s. bg_rate_mf s (-1)) fis1_rules) = [(1, Dose_Z)]"
  by (simp add: fire_def fis1_rules_def trapmf_def trimf_def)

lemma fired1_100_stable:
  "filter (\<lambda>sc. fst sc \<noteq> 0)
     (fire (\<lambda>s. bg_level_mf s 100) (\<lambda>s. bg_rate_mf s 0) fis1_rules) = [(1, Dose_VL)]"
  by (simp add: fire_def fis1_rules_def trapmf_def trimf_def)

lemma fired1_200_rising:
  "filter (\<lambda>sc. fst sc \<noteq> 0)
     (fire (\<lambda>s. bg_level_mf s 200) (\<lambda>s. bg_rate_mf s (2 / 5)) fis1_rules) = [(1, Dose_VH)]"
  by (simp add: fire_def fis1_rules_def trapmf_def trimf_def)

lemma fired2_150th_steady:
  "filter (\<lambda>sc. fst sc \<noteq> 0)
     (fire (\<lambda>s. pre_dose_mf s (1 / 150)) (\<lambda>s. bg_accel_mf s 0) fis2_rules)
   = [(13 / 15, Dose_Z), (1 / 30, Dose_VL)]"
  by (simp add: fire_def fis2_rules_def trapmf_def trimf_def)

lemma fired2_150th_accelerating:
  "filter (\<lambda>sc. fst sc \<noteq> 0)
     (fire (\<lambda>s. pre_dose_mf s (1 / 150)) (\<lambda>s. bg_accel_mf s 1) fis2_rules)
   = [(13 / 15, Dose_Z), (1 / 30, Dose_L)]"
  by (simp add: fire_def fis2_rules_def trapmf_def trimf_def)

lemma fired2_7_900_accelerating:
  "filter (\<lambda>sc. fst sc \<noteq> 0)
     (fire (\<lambda>s. pre_dose_mf s (7 / 900)) (\<lambda>s. bg_accel_mf s 1) fis2_rules)
   = [(38 / 45, Dose_Z), (7 / 180, Dose_L)]"
  by (simp add: fire_def fis2_rules_def trapmf_def trimf_def)

lemma fired2_zero_steady:
  "filter (\<lambda>sc. fst sc \<noteq> 0)
     (fire (\<lambda>s. pre_dose_mf s 0) (\<lambda>s. bg_accel_mf s 0) fis2_rules) = [(1, Dose_Z)]"
  by (simp add: fire_def fis2_rules_def trapmf_def trimf_def)

lemma fired2_tenth_steady:
  "filter (\<lambda>sc. fst sc \<noteq> 0)
     (fire (\<lambda>s. pre_dose_mf s (1 / 10)) (\<lambda>s. bg_accel_mf s 0) fis2_rules) = [(1 / 2, Dose_VL)]"
  by (simp add: fire_def fis2_rules_def trapmf_def trimf_def)

subsection \<open>Doses at the inputs evaluated below\<close>

lemma max_dose_init: "max_dose (HierarchicalFIS_init md) = md"
  by (simp add: HierarchicalFIS_init_def)

lemma outputs_init:
  "fis1_out (HierarchicalFIS_init md) = None" "fis2_out (HierarchicalFIS_init md) = None"
  by (simp_all add: HierarchicalFIS_init_def)

text \<open>What a stage infers depends on the object through \<open>max_dose\<close> only.\<close>

lemma fis_result_max_dose:
  assumes "max_dose f = md"
  shows "fis1_result f = fis1_result (HierarchicalFIS_init md)"
    and "fis2_result f = fis2_result (HierarchicalFIS_init md)"
  using assms
  by (simp_all add: fun_eq_iff fis1_result_def fis2_result_def dose_universe_def max_dose_init)

lemma clip_level_low: "l \<le> 50 \<Longrightarrow> 0 \<le> clip l 0 400 \<and> clip l 0 400 \<le> 50"
  by (simp add: clip_def)

lemma fis1_very_low:
  assumes "l \<le> 50" and "max_dose f = 1"
  shows "fis1_result f (clip l 0 400) (clip r (-5) 5) = Some (1 / 150)"
proof -
  from clip_level_low [OF assms(1)] have "0 \<le> clip l 0 400" and "clip l 0 400 \<le> 50"
    by simp_all
  from fired1_very_low [OF this] show ?thesis
    unfolding fis_result_max_dose(1) [OF assms(2)]
    by (simp only: fis1_result_fired agg_Z_full_1)
qed

lemma pre_dose_very_low:
  assumes "l \<le> 50" and "max_dose f = 1"
  shows "stage1_pre_dose f l r = 1 / 150"
  by (simp add: stage1_pre_dose_def fis1_very_low [OF assms] compute_output_simps assms(2)
        clip_id)

lemma fis2_150th_steady:
  assumes "max_dose f = 1"
  shows "fis2_result f (1 / 150) 0 = Some (25 / 552)"
  unfolding fis_result_max_dose(2) [OF assms]
  by (simp only: fis2_result_fired [OF fired2_150th_steady] agg_Z_VL_1)

lemma fis2_150th_accelerating:
  assumes "max_dose f = 1"
  shows "fis2_result f (1 / 150) 1 = Some (667 / 4275)"
  unfolding fis_result_max_dose(2) [OF assms]
  by (simp only: fis2_result_fired [OF fired2_150th_accelerating] agg_Z_L_1)

lemma dose_very_low_steady:
  assumes "l \<le> 50" and "max_dose f = 1"
  shows "compute_dose f l r 0
           = (25 / 552, [], f\<lparr> fis1_out := Some (1 / 150), fis2_out := Some (25 / 552) \<rparr>)"
  by (simp add: prod_eq_iff compute_dose_fst compute_dose_warnings compute_dose_object
        pre_dose_very_low [OF assms] fis1_very_low [OF assms] fis2_150th_steady [OF assms(2)]
        compute_output_simps assms(2) clip_id)

lemma dose_very_low_accelerating:
  assumes "l \<le> 50" and "max_dose f = 1"
  shows "compute_dose f l r 1
           = (667 / 4275, [], f\<lparr> fis1_out := Some (1 / 150), fis2_out := Some (667 / 4275) \<rparr>)"
  by (simp add: prod_eq_iff compute_dose_fst compute_dose_warnings compute_dose_object
        pre_dose_very_low [OF assms] fis1_very_low [OF assms]
        fis2_150th_accelerating [OF assms(2)] compute_output_simps assms(2) clip_id)

lemma dose_90_falling_accelerating:
  "fst (compute_dose (HierarchicalFIS_init 1) 90 (-1) 1) = 4654 / 27675"
proof -
  have a: "fis1_result (HierarchicalFIS_init 1) 90 (-1) = Some (7 / 900)"
    by (simp only: fis1_result_fired [OF fired1_90_falling] agg_Z_third_1)
  have p: "stage1_pre_dose (HierarchicalFIS_init 1) 90 (-1) = 7 / 900"
    by (simp add: stage1_pre_dose_def max_dose_init clip_id a compute_output_simps)
  have b: "fis2_result (HierarchicalFIS_init 1) (7 / 900) 1 = Some (4654 / 27675)"
    by (simp only: fis2_result_fired [OF fired2_7_900_accelerating] agg_Z_L_2)
  show ?thesis
    by (simp add: compute_dose_fst p b max_dose_init clip_id compute_output_simps)
qed

lemma dose_100_falling_accelerating:
  "fst (compute_dose (HierarchicalFIS_init 1) 100 (-1) 1) = 667 / 4275"
proof -
  have a: "fis1_result (HierarchicalFIS_init 1) 100 (-1) = Some (1 / 150)"
    by (simp only: fis1_result_fired [OF fired1_100_falling] agg_Z_full_1)
  have p: "stage1_pre_dose (HierarchicalFIS_init 1) 100 (-1) = 1 / 150"
    by (simp add: stage1_pre_dose_def max_dose_init clip_id a compute_output_simps)
  show ?thesis
    by (simp add: compute_dose_fst p fis2_150th_accelerating max_dose_init clip_id
          compute_output_simps)
qed

text \<open>
  The default \<open>max_dose = 0.4\<close>: a first call on a new object whose stage 1 yields no
  output, and the same call on an object that an earlier call has used.
\<close>

lemma fis1_fails_200_rising:
  "fis1_result (HierarchicalFIS_init (2 / 5)) 200 (2 / 5) = None"
  by (simp only: fis1_result_fired [OF fired1_200_rising] agg_VH_04)

lemma dose_after_fis1_failure:
  "compute_dose (HierarchicalFIS_init (2 / 5)) 200 (2 / 5) 0
     = (1 / 150, [FIS1_failed 200 (2 / 5)],
        (HierarchicalFIS_init (2 / 5))\<lparr> fis2_out := Some (1 / 150) \<rparr>)"
proof -
  have p: "stage1_pre_dose (HierarchicalFIS_init (2 / 5)) 200 (2 / 5) = 0"
    by (simp add: stage1_pre_dose_def max_dose_init outputs_init clip_id fis1_fails_200_rising
          compute_output_simps)
  have b: "fis2_result (HierarchicalFIS_init (2 / 5)) 0 0 = Some (1 / 150)"
    by (simp only: fis2_result_fired [OF fired2_zero_steady] agg_Z_04)
  show ?thesis
    by (simp add: prod_eq_iff compute_dose_fst compute_dose_warnings compute_dose_object p b
          fis1_fails_200_rising max_dose_init outputs_init clip_id compute_output_simps)
qed

lemma dose_100_stable:
  "compute_dose (HierarchicalFIS_init (2 / 5)) 100 0 0
     = (1 / 10, [],
        (HierarchicalFIS_init (2 / 5))\<lparr> fis1_out := Some (1 / 10), fis2_out := Some (1 / 10) \<rparr>)"
proof -
  have a: "fis1_result (HierarchicalFIS_init (2 / 5)) 100 0 = Some (1 / 10)"
    by (simp only: fis1_result_fired [OF fired1_100_stable] agg_VL_full_04)
  have p: "stage1_pre_dose (HierarchicalFIS_init (2 / 5)) 100 0 = 1 / 10"
    by (simp add: stage1_pre_dose_def max_dose_init clip_id a compute_output_simps)
  have b: "fis2_result (HierarchicalFIS_init (2 / 5)) (1 / 10) 0 = Some (1 / 10)"
    by (simp only: fis2_result_fired [OF fired2_tenth_steady] agg_VL_half_04)
  show ?thesis
    by (simp add: prod_eq_iff compute_dose_fst compute_dose_warnings compute_dose_object p a b
          max_dose_init clip_id compute_output_simps)
qed

lemma dose_stale_after_fis1_failure:
  "compute_dose ((HierarchicalFIS_init (2 / 5))\<lparr> fis1_out := Some (1 / 10),
                                                fis2_out := Some (1 / 10) \<rparr>) 200 (2 / 5) 0
     = (1 / 10, [],
        (HierarchicalFIS_init (2 / 5))\<lparr> fis1_out := Some (1 / 10), fis2_out := Some (1 / 10) \<rparr>)"
proof -
  let ?f = "(HierarchicalFIS_init (2 / 5))\<lparr> fis1_out := Some (1 / 10), fis2_out := Some (1 / 10) \<rparr>"
  have md: "max_dose ?f = 2 / 5" by (simp add: max_dose_init)
  have a: "fis1_result ?f 200 (2 / 5) = None"
    unfolding fis_result_max_dose(1) [OF md] by (rule fis1_fails_200_rising)
  have p: "stage1_pre_dose ?f 200 (2 / 5) = 1 / 10"
    by (simp add: stage1_pre_dose_def md clip_id a compute_output_simps)
  have b: "fis2_result ?f (1 / 10) 0 = Some (1 / 10)"
    unfolding fis_result_max_dose(2) [OF md]
    by (simp only: fis2_result_fired [OF fired2_tenth_steady] agg_VL_half_04)
  show ?thesis
    by (simp add: prod_eq_iff compute_dose_fst compute_dose_warnings compute_dose_object p a b
          md clip_id compute_output_simps)
qed

subsection \<open>No zero dose at very low glucose\<close>

text \<open>
  The envelope never goes below zero, and not below the clipped curve of the first rule;
  the polygon under an envelope that is positive at the first grid point has positive
  area and positive moment.
\<close>

lemma fold_env_ge_acc:
  "acc \<le> fold (\<lambda>sc acc. max acc (min (fst sc) (mf (snd sc) x))) fired (acc::real)"
proof (induction fired arbitrary: acc)
  case Nil
  then show ?case by simp
next
  case (Cons sc fired)
  have "acc \<le> max acc (min (fst sc) (mf (snd sc) x))" by simp
  also have "\<dots> \<le> fold (\<lambda>sc acc. max acc (min (fst sc) (mf (snd sc) x))) fired
                       (max acc (min (fst sc) (mf (snd sc) x)))"
    by (rule Cons.IH)
  finally show ?case by simp
qed

lemma envelope_nonneg: "0 \<le> envelope mf fired x"
  unfolding envelope_def by (rule fold_env_ge_acc)

lemma envelope_ge_first: "min s (mf c x) \<le> envelope mf ((s, c) # fired) x"
proof -
  have "min s (mf c x) \<le> max 0 (min s (mf c x))" by simp
  also have "\<dots> \<le> envelope mf ((s, c) # fired) x"
    unfolding envelope_def using fold_env_ge_acc [of "max 0 (min s (mf c x))" mf x fired]
    by simp
  finally show ?thesis .
qed

text \<open>Area and moment of a polygon over non-negative, non-decreasing abscissae.\<close>

lemma area_moment_nonneg:
  assumes "sorted (map fst ps)" and "\<forall>p \<in> set ps. 0 \<le> fst p \<and> 0 \<le> snd p"
  shows "0 \<le> area ps \<and> 0 \<le> moment ps"
  using assms
proof (induction ps rule: area.induct)
  case (1 p q ps)
  then have ih: "0 \<le> area (q # ps)" "0 \<le> moment (q # ps)" by simp_all
  from "1.prems" have o: "fst p \<le> fst q" "0 \<le> fst p" "0 \<le> snd p" "0 \<le> fst q" "0 \<le> snd q"
    by simp_all
  then have "0 \<le> (fst q - fst p) * (snd p + snd q) / 2"
    by simp
  moreover from o have "0 \<le> (fst q - fst p) * (snd p * (2 * fst p + fst q) + snd q * (fst p + 2 * fst q)) / 6"
    by simp
  ultimately show ?case using ih by simp
qed simp_all

lemma area_moment_pos:
  assumes "sorted (map fst (q # ps))" and "\<forall>p \<in> set (q # ps). 0 \<le> fst p \<and> 0 \<le> snd p"
    and "x0 < fst q" and "0 \<le> x0" and "0 < y0"
  shows "0 < area ((x0, y0) # q # ps) \<and> 0 < moment ((x0, y0) # q # ps)"
proof -
  from area_moment_nonneg [OF assms(1,2)]
  have ih: "0 \<le> area (q # ps)" "0 \<le> moment (q # ps)" by simp_all
  from assms have q: "0 \<le> snd q" "0 < fst q" by simp_all
  have "0 < (fst q - x0) * (y0 + snd q) / 2"
    using assms q by simp
  moreover have "0 < y0 * (2 * x0 + fst q) + snd q * (x0 + 2 * fst q)"
  proof -
    have "0 < 2 * x0 + fst q" "0 \<le> x0 + 2 * fst q" using assms q by simp_all
    then have "0 < y0 * (2 * x0 + fst q)" "0 \<le> snd q * (x0 + 2 * fst q)"
      using assms(5) q(1) by simp_all
    then show ?thesis by (rule add_pos_nonneg)
  qed
  then have "0 < (fst q - x0) * (y0 * (2 * x0 + fst q) + snd q * (x0 + 2 * fst q)) / 6"
    using assms by simp
  ultimately show ?thesis using ih by simp
qed

lemma sorted_arange: "0 \<le> h \<Longrightarrow> sorted (map (\<lambda>i. x0 + real i * h) [a ..< b])"
  by (simp add: sorted_map sorted_wrt_upt mult_right_mono sorted_wrt_iff_nth_less)

lemma upt_110: "[0 ..< 110::nat] = 0 # 1 # [2 ..< 110]" "[1 ..< 110::nat] = 1 # [2 ..< 110]"
proof -
  have a: "[Suc 0 ..< 110] = Suc 0 # [2 ..< 110]"
    by (subst upt_rec) (simp add: numeral_2_eq_2)
  have b: "[0 ..< 110::nat] = 0 # [Suc 0 ..< 110]"
    by (subst upt_rec) simp
  show "[0 ..< 110::nat] = 0 # 1 # [2 ..< 110]" "[1 ..< 110::nat] = 1 # [2 ..< 110]"
    using a b by simp_all
qed

lemma dose_universe_1:
  "dose_universe (HierarchicalFIS_init 1)
     = 0 # 1 / 100 # map (\<lambda>i. 0 + real i * (1 / 100)) [2 ..< 110]"
proof -
  have "nat \<lceil>(1 + 1 / 10 - 0) / (1 / 100 :: real)\<rceil> = 110" by simp
  then show ?thesis
    by (simp add: dose_universe_def HierarchicalFIS_init_def arange_def upt_110)
qed


lemma aggregate_positive:
  assumes "13 / 15 \<le> s"
  shows "\<exists>v. aggregate_and_defuzzify (dose_universe (HierarchicalFIS_init 1)) dose_mf
               ((s, Dose_Z) # fired) = Some v \<and> 0 < v"
proof -
  define env where "env = envelope dose_mf ((s, Dose_Z) # fired)"
  define rest where "rest = map (\<lambda>i. 0 + real i * (1 / 100)) [2 ..< 110]"
  define ps where "ps = (0, env 0) # (1 / 100, env (1 / 100)) # zip rest (map env rest)"
  have u: "dose_universe (HierarchicalFIS_init 1) = 0 # 1 / 100 # rest"
    by (simp only: dose_universe_1 rest_def)
  have y0: "0 < env 0"
  proof -
    have "0 < min s (dose_mf Dose_Z 0)" using assms by (simp add: trimf_def)
    then show ?thesis unfolding env_def by (rule less_le_trans [OF _ envelope_ge_first])
  qed
  have "sorted (map (\<lambda>i. 0 + real i * (1 / 100)) [1 ..< 110])"
    by (rule sorted_arange) simp
  then have "sorted ((0 + real 1 * (1 / 100)) # rest)"
    by (simp only: upt_110 list.map rest_def)
  then have s1: "sorted ((1 / 100) # rest)" by simp
  have "map fst (zip rest (map env rest)) = rest" by simp
  with s1 have srt: "sorted (map fst ((1 / 100, env (1 / 100)) # zip rest (map env rest)))"
    by simp
  have rest_nonneg: "0 \<le> x" if "x \<in> set rest" for x
    using that by (auto simp: rest_def)
  have env_nonneg: "0 \<le> env x" for x
    unfolding env_def by (rule envelope_nonneg)
  have nn: "\<forall>p \<in> set ((1 / 100, env (1 / 100)) # zip rest (map env rest)).
              0 \<le> fst p \<and> 0 \<le> snd p"
  proof
    fix p assume p: "p \<in> set ((1 / 100, env (1 / 100)) # zip rest (map env rest))"
    show "0 \<le> fst p \<and> 0 \<le> snd p"
    proof (cases "p = (1 / 100, env (1 / 100))")
      case True
      then show ?thesis by (simp add: env_nonneg)
    next
      case False
      with p have "p \<in> set (zip rest (map env rest))" by simp
      then have "fst p \<in> set rest" "snd p \<in> set (map env rest)"
        by (metis prod.collapse set_zip_leftD, metis prod.collapse set_zip_rightD)
      then show ?thesis using rest_nonneg env_nonneg by auto
    qed
  qed
  have "0 < area ((0, env 0) # (1 / 100, env (1 / 100)) # zip rest (map env rest)) \<and>
        0 < moment ((0, env 0) # (1 / 100, env (1 / 100)) # zip rest (map env rest))"
    by (rule area_moment_pos [OF srt nn]) (simp_all add: y0)
  then have pos: "0 < area ps" "0 < moment ps" by (simp_all add: ps_def)
  have "map env (dose_universe (HierarchicalFIS_init 1)) = env 0 # env (1 / 100) # map env rest"
    by (simp only: u list.map)
  moreover have "zip (dose_universe (HierarchicalFIS_init 1))
                   (env 0 # env (1 / 100) # map env rest) = ps"
    by (simp only: u ps_def zip_Cons_Cons)
  moreover have "centroid ps = moment ps / area ps"
    by (simp add: centroid_def ps_def split: list.split)
  ultimately have "aggregate_and_defuzzify (dose_universe (HierarchicalFIS_init 1)) dose_mf
          ((s, Dose_Z) # fired) = Some (moment ps / area ps)"
    using y0 by (simp add: aggregate_and_defuzzify_def Let_def env_def [symmetric])
  with pos show ?thesis by simp
qed

lemma fis2_result_positive:
  "\<exists>v. fis2_result (HierarchicalFIS_init 1) (1 / 150) a = Some v \<and> 0 < v"
proof -
  have "fire (\<lambda>s. pre_dose_mf s (1 / 150)) (\<lambda>s. bg_accel_mf s a) fis2_rules
          = (13 / 15, Dose_Z)
            # fire (\<lambda>s. pre_dose_mf s (1 / 150)) (\<lambda>s. bg_accel_mf s a) (tl fis2_rules)"
    by (simp add: fire_def fis2_rules_def trimf_def)
  then show ?thesis
    unfolding fis2_result_def using aggregate_positive [of "13 / 15"] by simp
qed

lemma dose_very_low_positive:
  assumes "l \<le> 50" and "max_dose f = 1"
  shows "0 < fst (compute_dose f l r a)"
proof -
  from fis2_result_positive [of "clip a (-1) 1"] obtain v where
    "fis2_result (HierarchicalFIS_init 1) (1 / 150) (clip a (-1) 1) = Some v" and v: "0 < v"
    by blast
  then have "fis2_result f (1 / 150) (clip a (-1) 1) = Some v"
    by (simp only: fis_result_max_dose(2) [OF assms(2)])
  with v show ?thesis
    by (simp add: compute_dose_fst pre_dose_very_low [OF assms] compute_output_simps assms(2)
          clip_def)
qed

subsection \<open>The final clamp\<close>

text \<open>
  C2. For a controller built with a non-negative \<open>max_dose\<close>, the dose returned by
  \<open>compute_dose\<close> lies in \<open>[0, max_dose]\<close> for every level, rate and acceleration,
  in range or not.
\<close>

theorem compute_dose_in_range:
  assumes "0 \<le> max_dose f"
  shows "0 \<le> fst (compute_dose f l r a) \<and> fst (compute_dose f l r a) \<le> max_dose f"
  unfolding compute_dose_fst using assms by (rule clip_bounds)

theorem compute_dose_in_range_witness:
  "(0::real) \<le> 1 \<and>
   0 \<le> fst (compute_dose (HierarchicalFIS_init 1) 1000 (-99) 7) \<and>
   fst (compute_dose (HierarchicalFIS_init 1) 1000 (-99) 7) \<le> 1"
proof -
  have h: "0 \<le> max_dose (HierarchicalFIS_init 1)"
    by (simp add: max_dose_init)
  from compute_dose_in_range [OF h, of 1000 "-99" 7] show ?thesis
    by (simp add: max_dose_init)
qed

subsection \<open>Very low glucose\<close>

text \<open>
  C1 (what the code does). For every controller object with \<open>max_dose = 1\<close>, new or
  used, at every glucose level up to 50 (the whole plateau of the Very Low set, levels
  at or below its lower bound 0 included), every rate and every acceleration, the dose
  returned is greater than 0: only the Very Low rule fires in stage 1, whose consequent
  Z has the centroid \<open>1 / 150\<close>, and stage 2 takes a centroid again. At acceleration 0
  the dose is \<open>25 / 552\<close>, at acceleration 1 it is \<open>667 / 4275\<close>, with no warning.
\<close>

theorem compute_dose_very_low_not_zero:
  assumes "level \<le> 50" and "max_dose f = 1"
  shows "0 < fst (compute_dose f level rate accel) \<and>
         compute_dose f level rate 0
           = (25 / 552, [], f\<lparr> fis1_out := Some (1 / 150), fis2_out := Some (25 / 552) \<rparr>) \<and>
         compute_dose f level rate 1
           = (667 / 4275, [], f\<lparr> fis1_out := Some (1 / 150), fis2_out := Some (667 / 4275) \<rparr>)"
  using dose_very_low_positive [OF assms] dose_very_low_steady [OF assms]
    dose_very_low_accelerating [OF assms] by simp

theorem compute_dose_very_low_not_zero_witness:
  "0 < fst (compute_dose (HierarchicalFIS_init 1) 0 3 (- 1 / 2)) \<and>
   fst (compute_dose (HierarchicalFIS_init 1) 0 3 0) = 25 / 552 \<and>
   fst (snd (compute_dose (HierarchicalFIS_init 1) 0 3 0)) = [] \<and>
   fst (compute_dose (HierarchicalFIS_init 1) 0 3 1) = 667 / 4275 \<and>
   fst (snd (compute_dose (HierarchicalFIS_init 1) 0 3 1)) = []"
proof -
  have h: "(0::real) \<le> 50" "max_dose (HierarchicalFIS_init 1) = 1"
    by (simp_all add: max_dose_init)
  from compute_dose_very_low_not_zero [OF h, of 3 "- 1 / 2"] show ?thesis
    by simp
qed

subsection \<open>Monotonicity in the glucose level\<close>

lemma fis1_result_plateau:
  assumes "180 \<le> l1" and "l1 \<le> l2"
  shows "fis1_result f (clip l1 0 400) r = fis1_result f (clip l2 0 400) r"
proof -
  have b1: "180 \<le> clip l1 0 400" "clip l1 0 400 \<le> 400"
    and b2: "180 \<le> clip l2 0 400" "clip l2 0 400 \<le> 400"
    using assms by (simp_all add: clip_def)
  have "bg_level_mf s (clip l1 0 400) = bg_level_mf s (clip l2 0 400)" for s
    using fired1_very_high_plateau [OF b1, of s] fired1_very_high_plateau [OF b2, of s]
    by (rule trans [OF _ sym])
  then have "(\<lambda>s. bg_level_mf s (clip l1 0 400)) = (\<lambda>s. bg_level_mf s (clip l2 0 400))"
    by (rule ext)
  then show ?thesis
    unfolding fis1_result_def by (rule arg_cong [where f = "\<lambda>m. aggregate_and_defuzzify _ _ (fire m _ _)"])
qed

lemma crisp_consequents_table:
  "crisp_consequents Lvl_N Rate_N = [Dose_Z]" "crisp_consequents Lvl_H Rate_N = [Dose_L]"
  "crisp_consequents Lvl_VH Rate_N = [Dose_M]"
  "crisp_consequents Lvl_N Rate_Z = [Dose_VL]" "crisp_consequents Lvl_H Rate_Z = [Dose_M]"
  "crisp_consequents Lvl_VH Rate_Z = [Dose_H]"
  "crisp_consequents Lvl_N Rate_P = [Dose_M]" "crisp_consequents Lvl_H Rate_P = [Dose_VH]"
  "crisp_consequents Lvl_VH Rate_P = [Dose_VH]"
  "crisp_consequents Lvl_N Rate_VP = [Dose_H]" "crisp_consequents Lvl_H Rate_VP = [Dose_VH]"
  "crisp_consequents Lvl_VH Rate_VP = [Dose_VH]"
  by (simp_all add: crisp_consequents_def fire_def fis1_rules_def crisp_def)

text \<open>
  C3 (as the code has it). Holding rate and acceleration fixed, the dose is constant,
  hence non-decreasing, in the glucose level over the plateau of the Very High set
  (levels from 180 up); and the rule base is monotone: for every rate set, exactly one
  rule fires at a crisp Normal, High or Very High level, and the dose sets these rules
  assign do not decrease from Normal to High to Very High.
\<close>

theorem compute_dose_monotone_where:
  "(180 \<le> l1 \<and> l1 \<le> l2 \<longrightarrow> fst (compute_dose f l1 r a) = fst (compute_dose f l2 r a)) \<and>
   (\<exists>c1 c2 c3. crisp_consequents Lvl_N rt = [c1] \<and> crisp_consequents Lvl_H rt = [c2] \<and>
       crisp_consequents Lvl_VH rt = [c3] \<and>
       dose_rank c1 \<le> dose_rank c2 \<and> dose_rank c2 \<le> dose_rank c3)"
proof
  show "180 \<le> l1 \<and> l1 \<le> l2 \<longrightarrow> fst (compute_dose f l1 r a) = fst (compute_dose f l2 r a)"
  proof
    assume "180 \<le> l1 \<and> l1 \<le> l2"
    then have "fis1_result f (clip l1 0 400) (clip r (-5) 5)
             = fis1_result f (clip l2 0 400) (clip r (-5) 5)"
      using fis1_result_plateau [of l1 l2 f "clip r (-5) 5"] by blast
    then have "stage1_pre_dose f l1 r = stage1_pre_dose f l2 r"
      unfolding stage1_pre_dose_def
      by (rule arg_cong [where f = "\<lambda>v. clip (case compute_output _ v of Some v \<Rightarrow> v | None \<Rightarrow> 0) 0 _"])
    then show "fst (compute_dose f l1 r a) = fst (compute_dose f l2 r a)"
      unfolding compute_dose_fst
      by (rule arg_cong [where f = "\<lambda>p. clip (case compute_output _ (fis2_result f p _) of
                                              Some v \<Rightarrow> v | None \<Rightarrow> 0) 0 _"])
  qed
next
  show "\<exists>c1 c2 c3. crisp_consequents Lvl_N rt = [c1] \<and> crisp_consequents Lvl_H rt = [c2] \<and>
       crisp_consequents Lvl_VH rt = [c3] \<and>
       dose_rank c1 \<le> dose_rank c2 \<and> dose_rank c2 \<le> dose_rank c3"
    by (cases rt) (simp_all add: crisp_consequents_table)
qed

theorem compute_dose_monotone_where_witness:
  "fst (compute_dose (HierarchicalFIS_init 1) 200 0 0)
     = fst (compute_dose (HierarchicalFIS_init 1) 300 0 0)"
proof -
  have h: "(180::real) \<le> 200 \<and> (200::real) \<le> 300" by simp
  from compute_dose_monotone_where [of 200 300 "HierarchicalFIS_init 1" 0 0] h
  show ?thesis by blast
qed

text \<open>
  The claim as worded fails inside the Normal set, with \<open>max_dose = 1\<close>, rate \<open>-1\<close>
  and acceleration 1: the dose at level 90 is \<open>4654 / 27675\<close> (about 0.168), the dose
  at the higher level 100 is \<open>667 / 4275\<close> (about 0.156).
\<close>

theorem compute_dose_not_monotone_counterexample:
  "fst (compute_dose (HierarchicalFIS_init 1) 90 (-1) 1) = 4654 / 27675 \<and>
   fst (compute_dose (HierarchicalFIS_init 1) 100 (-1) 1) = 667 / 4275 \<and>
   \<not> fst (compute_dose (HierarchicalFIS_init 1) 90 (-1) 1)
       \<le> fst (compute_dose (HierarchicalFIS_init 1) 100 (-1) 1)"
  by (simp add: dose_90_falling_accelerating dose_100_falling_accelerating)

subsection \<open>A stage without output\<close>

text \<open>
  C7 (what the code does). With the default \<open>max_dose = 0.4\<close>, level 200 and rate 0.4
  fire only rules whose consequent Very High lies outside the output universe
  \<open>[0, 0.49]\<close>, so stage 1 yields no output. On a new object the call does not raise,
  warns and takes pre-dose 0, and stage 2, where only the rule for a zero pre-dose
  fires, returns the dose \<open>1 / 150\<close>, not 0. On an object that an earlier call (level
  100, rate 0, acceleration 0, dose \<open>1 / 10\<close>) has used, the same input finds the
  earlier call's pre-dose in the output, emits no warning, substitutes no 0, and
  returns the dose \<open>1 / 10\<close>.
\<close>

theorem compute_dose_without_stage1_output:
  "fis1_result (HierarchicalFIS_init (2 / 5)) (clip 200 0 400) (clip (2 / 5) (-5) 5) = None \<and>
   fst (compute_dose (HierarchicalFIS_init (2 / 5)) 200 (2 / 5) 0) = 1 / 150 \<and>
   fst (snd (compute_dose (HierarchicalFIS_init (2 / 5)) 200 (2 / 5) 0))
     = [FIS1_failed 200 (2 / 5)] \<and>
   fst (compute_dose (HierarchicalFIS_init (2 / 5)) 100 0 0) = 1 / 10 \<and>
   fst (compute_dose (snd (snd (compute_dose (HierarchicalFIS_init (2 / 5)) 100 0 0)))
          200 (2 / 5) 0) = 1 / 10 \<and>
   fst (snd (compute_dose (snd (snd (compute_dose (HierarchicalFIS_init (2 / 5)) 100 0 0)))
               200 (2 / 5) 0)) = []"
  by (simp add: clip_id fis1_fails_200_rising dose_after_fis1_failure dose_100_stable
        dose_stale_after_fis1_failure)

section \<open>Controller state: results\<close>

lemma policy_prev:
  assumes "st \<noteq> 0"
  shows "hc_prev_bg (fst (snd (policy self bg (Some st)))) = Some bg"
    and "hc_prev_rate (fst (snd (policy self bg (Some st)))) =
           (case hc_prev_bg self of None \<Rightarrow> 0 | Some prev_bg \<Rightarrow> (bg - prev_bg) / st)"
  using assms
  by (simp_all add: policy_def policy_rate_accel_def Let_def split: option.split)

lemma after_two_observations_rate: "hc_prev_rate after_two_observations = 2"
  by (simp add: after_two_observations_def policy_prev)

text \<open>
  C9 (what the code does). \<open>reset\<close> sets the previous glucose value to unknown and
  assigns 0 to an attribute \<open>prev_state\<close>, which \<open>policy\<close> never reads; the previous
  rate keeps the value it had. After the observations 100 and 110, five minutes apart,
  the previous rate is 2 before and after \<open>reset\<close>. The first \<open>policy\<close> call after a
  \<open>reset\<close> still passes rate 0 and acceleration 0, because the previous glucose value
  is unknown.
\<close>

theorem reset_keeps_prev_rate:
  "hc_prev_bg (reset self) = None \<and>
   hc_prev_rate (reset self) = hc_prev_rate self \<and>
   hc_prev_state (reset self) = Some 0 \<and>
   policy_rate_accel (reset self) bg sample_time = Inr (0, 0) \<and>
   hc_prev_rate after_two_observations = 2 \<and>
   hc_prev_rate (reset after_two_observations) = 2"
  by (simp add: reset_def policy_rate_accel_def after_two_observations_rate)

section \<open>Closed-loop driver: results\<close>

lemma step_dt: "pm_dt (snd (step od p dose mr)) = pm_dt p"
  by (simp add: step_def Let_def)

lemma step_constant_glucose: "fst (step (constant_glucose c) p dose mr) = c"
  by (simp add: step_def Let_def constant_glucose_def)

lemma driver_body_fields:
  "ls_G_prev (driver_body od ctl ms (i, tm) s) = fst (controller_inputs s i)"
  "ls_rate_prev (driver_body od ctl ms (i, tm) s) = fst (snd (controller_inputs s i))"
  "pm_dt (ls_patient (driver_body od ctl ms (i, tm) s)) = pm_dt (ls_patient s)"
  "length (ls_G_trace (driver_body od ctl ms (i, tm) s)) = length (ls_G_trace s)"
  "length (ls_doses (driver_body od ctl ms (i, tm) s)) = length (ls_doses s)"
  "j \<noteq> i \<Longrightarrow> ls_G_trace (driver_body od ctl ms (i, tm) s) ! j = ls_G_trace s ! j"
  by (simp_all add: driver_body_def Let_def step_dt)

lemma driver_body_recording:
  "fst (ls_ctrl (driver_body od (recording f) ms (i, tm) s))
     = fst (ls_ctrl s) @ [controller_inputs s i]"
  by (simp add: driver_body_def recording_def Let_def)

lemma driver_body_constant_glucose:
  "i < length (ls_G_trace s) \<Longrightarrow>
     ls_G_trace (driver_body (constant_glucose c) ctl ms (i, tm) s) ! i = c"
  by (simp add: driver_body_def Let_def step_constant_glucose)

lemma enumerate_snoc: "enumerate 0 (ts @ [tm]) = enumerate 0 ts @ [(length ts, tm)]"
  by (simp add: enumerate_append_eq)

text \<open>The loop invariant, for a recording controller, after the time points \<open>ts\<close>.\<close>

lemma driver_invariant:
  fixes s :: "((real \<times> real \<times> real) list \<times> 'c) loop_state"
  assumes "length ts \<le> n"
    and "s = fold (driver_body od (recording f) ms) (enumerate 0 ts) (driver_init p ([], c0) n)"
  shows "length (ls_G_trace s) = n \<and> pm_dt (ls_patient s) = pm_dt p \<and>
         length (fst (ls_ctrl s)) = length ts \<and>
         ls_G_prev s = (if ts = [] then 90 else fst (fst (ls_ctrl s) ! (length ts - 1))) \<and>
         ls_rate_prev s = (if ts = [] then 0 else fst (snd (fst (ls_ctrl s) ! (length ts - 1)))) \<and>
         (\<forall>j < length ts. fst (ls_ctrl s) ! j = expected_call (ls_G_trace s) (fst (ls_ctrl s)) (pm_dt p * 60) j)"
  using assms
proof (induction ts arbitrary: s rule: rev_induct)
  case Nil
  then show ?case by (simp add: driver_init_def)
next
  case (snoc tm ts)
  define s0 where "s0 = fold (driver_body od (recording f) ms) (enumerate 0 ts) (driver_init p ([], c0) n)"
  define k where "k = length ts"
  have kn: "k < n" using snoc.prems(1) by (simp add: k_def)
  have s: "s = driver_body od (recording f) ms (k, tm) s0"
    using snoc.prems(2) by (simp add: enumerate_snoc s0_def k_def)
  from snoc.IH [of s0] snoc.prems(1)
  have len: "length (ls_G_trace s0) = n" and dt: "pm_dt (ls_patient s0) = pm_dt p"
    and lc: "length (fst (ls_ctrl s0)) = k"
    and gp: "ls_G_prev s0 = (if k = 0 then 90 else fst (fst (ls_ctrl s0) ! (k - 1)))"
    and rp: "ls_rate_prev s0 = (if k = 0 then 0 else fst (snd (fst (ls_ctrl s0) ! (k - 1))))"
    and calls: "\<forall>j < k. fst (ls_ctrl s0) ! j = expected_call (ls_G_trace s0) (fst (ls_ctrl s0)) (pm_dt p * 60) j"
    by (simp_all add: s0_def k_def)
  have ctrl: "fst (ls_ctrl s) = fst (ls_ctrl s0) @ [controller_inputs s0 k]"
    by (simp add: s driver_body_recording)
  have old: "fst (ls_ctrl s) ! j = fst (ls_ctrl s0) ! j" if "j < k" for j
    using that by (simp add: ctrl lc nth_append)
  have new: "fst (ls_ctrl s) ! k = controller_inputs s0 k"
    by (simp add: ctrl lc nth_append)
  have tr: "ls_G_trace s ! j = ls_G_trace s0 ! j" if "j < k" for j
    using that by (simp add: s driver_body_fields)
  have exp_old: "expected_call (ls_G_trace s) (fst (ls_ctrl s)) d j
               = expected_call (ls_G_trace s0) (fst (ls_ctrl s0)) d j" if "j \<le> k" for j d
    using that by (cases "j = 0") (simp_all add: expected_call_def tr old)
  have inp: "controller_inputs s0 k = expected_call (ls_G_trace s0) (fst (ls_ctrl s0)) (pm_dt p * 60) k"
    using calls
    by (cases "k = 0") (simp_all add: controller_inputs_def expected_call_def Let_def gp rp dt)
  have "\<forall>j < length (ts @ [tm]).
          fst (ls_ctrl s) ! j = expected_call (ls_G_trace s) (fst (ls_ctrl s)) (pm_dt p * 60) j"
  proof (intro allI impI)
    fix j assume "j < length (ts @ [tm])"
    then have "j < k \<or> j = k" by (auto simp: k_def)
    then show "fst (ls_ctrl s) ! j = expected_call (ls_G_trace s) (fst (ls_ctrl s)) (pm_dt p * 60) j"
    proof
      assume "j < k"
      then show ?thesis using calls by (simp add: old exp_old)
    next
      assume "j = k"
      then show ?thesis by (simp add: new inp exp_old)
    qed
  qed
  moreover have "length (ls_G_trace s) = n" "pm_dt (ls_patient s) = pm_dt p"
    by (simp_all add: s driver_body_fields len dt)
  moreover have "length (fst (ls_ctrl s)) = length (ts @ [tm])"
    by (simp add: ctrl lc k_def)
  moreover have "ls_G_prev s = fst (fst (ls_ctrl s) ! (length (ts @ [tm]) - 1))"
    "ls_rate_prev s = fst (snd (fst (ls_ctrl s) ! (length (ts @ [tm]) - 1)))"
    using new by (simp_all add: s driver_body_fields k_def)
  ultimately show ?case by simp
qed

lemma driver_trace_constant:
  fixes s :: "'c loop_state"
  assumes "length ts \<le> n"
    and "s = fold (driver_body (constant_glucose c) ctl ms) (enumerate 0 ts) (driver_init p c0 n)"
  shows "length (ls_G_trace s) = n \<and> (\<forall>j < length ts. ls_G_trace s ! j = c)"
  using assms
proof (induction ts arbitrary: s rule: rev_induct)
  case Nil
  then show ?case by (simp add: driver_init_def)
next
  case (snoc tm ts)
  define s0 where "s0 = fold (driver_body (constant_glucose c) ctl ms) (enumerate 0 ts) (driver_init p c0 n)"
  have s: "s = driver_body (constant_glucose c) ctl ms (length ts, tm) s0"
    using snoc.prems(2) by (simp add: enumerate_snoc s0_def)
  from snoc.IH [of s0] snoc.prems(1)
  have len: "length (ls_G_trace s0) = n" and old: "\<forall>j < length ts. ls_G_trace s0 ! j = c"
    by (simp_all add: s0_def)
  have "ls_G_trace s ! j = c" if "j < length (ts @ [tm])" for j
  proof (cases "j = length ts")
    case True
    then show ?thesis
      using snoc.prems(1) len by (simp add: s driver_body_constant_glucose)
  next
    case False
    with that have "j < length ts" by simp
    with old False show ?thesis by (simp add: s driver_body_fields)
  qed
  then show ?case by (simp add: s driver_body_fields len)
qed

lemma simulate_controller_calls:
  assumes "pm_dt p \<noteq> 0"
  shows "\<exists>Gt ds p' calls c'.
           simulate_controller od p (recording f) ([], c0) ms
             = Inr (arange 0 24 (pm_dt p), Gt, ds, p', (calls, c')) \<and>
           length Gt = length (arange 0 24 (pm_dt p)) \<and> length calls = length Gt \<and>
           (\<forall>j < length calls. calls ! j = expected_call Gt calls (pm_dt p * 60) j)"
proof -
  define s where "s = fold (driver_body od (recording f) ms) (enumerate 0 (arange 0 24 (pm_dt p)))
                        (driver_init p ([], c0) (length (arange 0 24 (pm_dt p))))"
  from driver_invariant [OF le_refl s_def]
  have "length (ls_G_trace s) = length (arange 0 24 (pm_dt p))"
    "length (fst (ls_ctrl s)) = length (ls_G_trace s)"
    "\<forall>j < length (fst (ls_ctrl s)).
        fst (ls_ctrl s) ! j = expected_call (ls_G_trace s) (fst (ls_ctrl s)) (pm_dt p * 60) j"
    by simp_all
  moreover have "simulate_controller od p (recording f) ([], c0) ms
     = Inr (arange 0 24 (pm_dt p), ls_G_trace s, ls_doses s, ls_patient s,
            (fst (ls_ctrl s), snd (ls_ctrl s)))"
    using assms by (simp add: simulate_controller_def Let_def s_def)
  ultimately show ?thesis by blast
qed

lemma simulate_controller_constant:
  assumes "pm_dt p \<noteq> 0"
  shows "\<exists>Gt ds p' c'.
           simulate_controller (constant_glucose c) p ctl c0 ms
             = Inr (arange 0 24 (pm_dt p), Gt, ds, p', c') \<and>
           (\<forall>j < length Gt. Gt ! j = c)"
proof -
  define s where "s = fold (driver_body (constant_glucose c) ctl ms)
                        (enumerate 0 (arange 0 24 (pm_dt p)))
                        (driver_init p c0 (length (arange 0 24 (pm_dt p))))"
  from driver_trace_constant [OF le_refl s_def]
  have "\<forall>j < length (ls_G_trace s). ls_G_trace s ! j = c"
    by simp
  moreover have "simulate_controller (constant_glucose c) p ctl c0 ms
     = Inr (arange 0 24 (pm_dt p), ls_G_trace s, ls_doses s, ls_patient s, ls_ctrl s)"
    using assms by (simp add: simulate_controller_def Let_def s_def)
  ultimately show ?thesis by blast
qed

lemma expected_call_first: "expected_call gt calls d 0 = (90, 0, 0)"
  by (simp add: expected_call_def)

lemma expected_call_later:
  assumes "0 < i"
  shows "expected_call gt calls d i =
           (gt ! (i - 1), (gt ! (i - 1) - fst (calls ! (i - 1))) / d,
            ((gt ! (i - 1) - fst (calls ! (i - 1))) / d - fst (snd (calls ! (i - 1)))) / d)"
  using assms by (simp add: expected_call_def Let_def)

lemma length_arange_5min: "length (arange 0 24 (5 / 60)) = 288"
  by (simp add: arange_def)

lemma pm_dt_init: "pm_dt (PatientModel_init g i d) = d"
  by (simp add: PatientModel_init_def)

text \<open>
  C5 (as the code has it). For every patient with a non-zero step, every solver, every
  three-argument controller, whatever its state, and every schedule, the driver
  returns, and the calls it makes to the controller are these: the first call has glucose 90, rate 0 and
  acceleration 0; every later call \<open>i\<close> has the glucose realised by iteration
  \<open>i - 1\<close>, the rate from that value and the one before it (90 before the first
  realised value), and the acceleration from this rate and the rate of call \<open>i - 1\<close>.
  If the realised trace is constant, the rate is 0 from the third call on and the
  acceleration from the fourth call on; if the constant is the driver's initial
  value 90, every call has rate 0 and acceleration 0.
\<close>

theorem driver_rate_accel:
  assumes "pm_dt p \<noteq> 0"
  shows "\<exists>Gt ds p' calls c'.
           simulate_controller od p (recording f) ([], c0) ms
             = Inr (arange 0 24 (pm_dt p), Gt, ds, p', (calls, c')) \<and>
           length Gt = length (arange 0 24 (pm_dt p)) \<and> length calls = length Gt \<and>
           (0 < length calls \<longrightarrow> calls ! 0 = (90, 0, 0)) \<and>
           (\<forall>i. 0 < i \<and> i < length calls \<longrightarrow>
                fst (calls ! i) = Gt ! (i - 1) \<and>
                fst (snd (calls ! i))
                  = (Gt ! (i - 1) - (if i = 1 then 90 else Gt ! (i - 2))) / (pm_dt p * 60) \<and>
                snd (snd (calls ! i))
                  = (fst (snd (calls ! i)) - fst (snd (calls ! (i - 1)))) / (pm_dt p * 60)) \<and>
           ((\<forall>i < length Gt. Gt ! i = c) \<longrightarrow>
                (\<forall>i. 2 \<le> i \<and> i < length calls \<longrightarrow> fst (snd (calls ! i)) = 0) \<and>
                (\<forall>i. 3 \<le> i \<and> i < length calls \<longrightarrow> snd (snd (calls ! i)) = 0) \<and>
                (c = 90 \<longrightarrow> (\<forall>i < length calls. calls ! i = (90, 0, 0))))"
proof -
  from simulate_controller_calls [OF assms, of od f c0 ms]
  obtain Gt ds p' calls c' where
    run: "simulate_controller od p (recording f) ([], c0) ms
            = Inr (arange 0 24 (pm_dt p), Gt, ds, p', (calls, c'))"
    and lg: "length Gt = length (arange 0 24 (pm_dt p))" and lc: "length calls = length Gt"
    and ex: "\<forall>j < length calls. calls ! j = expected_call Gt calls (pm_dt p * 60) j"
    by blast
  let ?d = "pm_dt p * 60"
  have first: "calls ! 0 = (90, 0, 0)" if "0 < length calls"
    using ex that by (simp add: expected_call_first)
  have later: "calls ! i = (Gt ! (i - 1), (Gt ! (i - 1) - fst (calls ! (i - 1))) / ?d,
        ((Gt ! (i - 1) - fst (calls ! (i - 1))) / ?d - fst (snd (calls ! (i - 1)))) / ?d)"
    if "0 < i" "i < length calls" for i
    using ex that by (simp add: expected_call_later)
  have glu: "fst (calls ! i) = (if i = 0 then 90 else Gt ! (i - 1))" if "i < length calls" for i
    using that first [of] later [of i] by (cases "i = 0") simp_all
  have rate: "fst (snd (calls ! i))
                = (Gt ! (i - 1) - (if i = 1 then 90 else Gt ! (i - 2))) / ?d"
    if "0 < i" "i < length calls" for i
  proof -
    have "i - 1 < length calls" using that by simp
    moreover have "i - 1 - 1 = i - 2" by simp
    ultimately have g: "fst (calls ! (i - 1)) = (if i = 1 then 90 else Gt ! (i - 2))"
      using glu [of "i - 1"] that by (cases "i = 1") auto
    have "calls ! i = (Gt ! (i - 1), (Gt ! (i - 1) - fst (calls ! (i - 1))) / ?d,
        ((Gt ! (i - 1) - fst (calls ! (i - 1))) / ?d - fst (snd (calls ! (i - 1)))) / ?d)"
      by (rule later [OF that])
    then have "fst (snd (calls ! i)) = (Gt ! (i - 1) - fst (calls ! (i - 1))) / ?d"
      by simp
    then show ?thesis
      by (simp only: g)
  qed
  have accel: "snd (snd (calls ! i)) = (fst (snd (calls ! i)) - fst (snd (calls ! (i - 1)))) / ?d"
    if "0 < i" "i < length calls" for i
    by (simp add: later [OF that])
  have const: "(\<forall>i. 2 \<le> i \<and> i < length calls \<longrightarrow> fst (snd (calls ! i)) = 0) \<and>
               (\<forall>i. 3 \<le> i \<and> i < length calls \<longrightarrow> snd (snd (calls ! i)) = 0) \<and>
               (c = 90 \<longrightarrow> (\<forall>i < length calls. calls ! i = (90, 0, 0)))"
    if cg: "\<forall>i < length Gt. Gt ! i = c"
  proof -
    have r0: "fst (snd (calls ! i)) = 0" if "2 \<le> i" "i < length calls" for i
    proof -
      from that have "0 < i" "i \<noteq> 1" "i - 1 < length Gt" "i - 2 < length Gt"
        by (simp_all add: lc)
      with cg rate [of i] that show ?thesis by simp
    qed
    have a0: "snd (snd (calls ! i)) = 0" if "3 \<le> i" "i < length calls" for i
    proof -
      from that have "0 < i" "2 \<le> i" "2 \<le> i - 1" "i - 1 < length calls" by simp_all
      with accel [of i] r0 [of i] r0 [of "i - 1"] that show ?thesis by simp
    qed
    have all90: "calls ! i = (90, 0, 0)" if "c = 90" "i < length calls" for i
    proof (cases "i = 0")
      case True
      with first that show ?thesis by simp
    next
      case False
      have rz: "fst (snd (calls ! j)) = 0" if "j < length calls" for j
      proof (cases "j = 0")
        case True
        with first that show ?thesis by simp
      next
        case False
        with that have "0 < j" "j - 1 < length Gt" "j - 2 < length Gt" by (simp_all add: lc)
        with cg \<open>c = 90\<close> rate [of j] that show ?thesis by simp
      qed
      from False that have i: "0 < i" "i - 1 < length calls" "i - 1 < length Gt"
        by (simp_all add: lc)
      have "fst (calls ! i) = 90"
        using glu [of i] False that cg i by simp
      moreover have "fst (snd (calls ! i)) = 0" using rz that by simp
      moreover have "snd (snd (calls ! i)) = 0"
        using accel [of i] i that rz [of i] rz [of "i - 1"] by simp
      ultimately show ?thesis by (simp add: prod_eq_iff)
    qed
    from r0 a0 all90 show ?thesis by blast
  qed
  have "(0 < length calls \<longrightarrow> calls ! 0 = (90, 0, 0))"
    using first by blast
  moreover have "\<forall>i. 0 < i \<and> i < length calls \<longrightarrow>
                fst (calls ! i) = Gt ! (i - 1) \<and>
                fst (snd (calls ! i))
                  = (Gt ! (i - 1) - (if i = 1 then 90 else Gt ! (i - 2))) / (pm_dt p * 60) \<and>
                snd (snd (calls ! i))
                  = (fst (snd (calls ! i)) - fst (snd (calls ! (i - 1)))) / (pm_dt p * 60)"
    using glu rate accel by simp
  moreover have "(\<forall>i < length Gt. Gt ! i = c) \<longrightarrow>
                (\<forall>i. 2 \<le> i \<and> i < length calls \<longrightarrow> fst (snd (calls ! i)) = 0) \<and>
                (\<forall>i. 3 \<le> i \<and> i < length calls \<longrightarrow> snd (snd (calls ! i)) = 0) \<and>
                (c = 90 \<longrightarrow> (\<forall>i < length calls. calls ! i = (90, 0, 0)))"
    using const by blast
  ultimately show ?thesis
    using run lg lc by blast
qed

theorem driver_rate_accel_witness:
  "\<exists>Gt ds p' calls.
     simulate_controller (constant_glucose 100) (PatientModel_init 90 15 (5 / 60))
         (recording (\<lambda>c g r a. (0, c))) ([], ()) meals
       = Inr (arange 0 24 (5 / 60), Gt, ds, p', (calls, ())) \<and>
     length calls = 288 \<and> calls ! 0 = (90, 0, 0) \<and> fst (calls ! 1) = Gt ! 0 \<and>
     fst (snd (calls ! 2)) = 0 \<and> snd (snd (calls ! 3)) = 0"
proof -
  let ?p = "PatientModel_init 90 15 (5 / 60)"
  have h: "pm_dt ?p \<noteq> 0" by (simp add: pm_dt_init)
  from driver_rate_accel [OF h, of "constant_glucose 100" "\<lambda>c g r a. (0, c)" "()" meals 100]
  obtain Gt ds p' calls c' where
    run: "simulate_controller (constant_glucose 100) ?p (recording (\<lambda>c g r a. (0, c))) ([], ()) meals
            = Inr (arange 0 24 (5 / 60), Gt, ds, p', (calls, c'))"
    and lg: "length Gt = 288" and lc: "length calls = length Gt"
    and first: "0 < length calls \<longrightarrow> calls ! 0 = (90, 0, 0)"
    and later: "\<forall>i. 0 < i \<and> i < length calls \<longrightarrow>
                fst (calls ! i) = Gt ! (i - 1) \<and>
                fst (snd (calls ! i))
                  = (Gt ! (i - 1) - (if i = 1 then 90 else Gt ! (i - 2))) / (pm_dt ?p * 60) \<and>
                snd (snd (calls ! i))
                  = (fst (snd (calls ! i)) - fst (snd (calls ! (i - 1)))) / (pm_dt ?p * 60)"
    and const: "(\<forall>i < length Gt. Gt ! i = 100) \<longrightarrow>
                (\<forall>i. 2 \<le> i \<and> i < length calls \<longrightarrow> fst (snd (calls ! i)) = 0) \<and>
                (\<forall>i. 3 \<le> i \<and> i < length calls \<longrightarrow> snd (snd (calls ! i)) = 0) \<and>
                (100 = (90::real) \<longrightarrow> (\<forall>i < length calls. calls ! i = (90, 0, 0)))"
    unfolding pm_dt_init length_arange_5min by blast
  from simulate_controller_constant [OF h, of 100 "recording (\<lambda>c g r a. (0, c))" "([], ())" meals] run
  have cg: "\<forall>i < length Gt. Gt ! i = 100"
    by (auto simp: pm_dt_init)
  have "calls ! 0 = (90, 0, 0)" using first lc lg by simp
  moreover have "fst (calls ! 1) = Gt ! 0" using later lc lg by simp
  moreover have "fst (snd (calls ! 2)) = 0" "snd (snd (calls ! 3)) = 0"
    using const cg lc lg by simp_all
  moreover have "c' = ()" by simp
  ultimately show ?thesis using run lc lg by auto
qed

text \<open>
  The claim as worded fails for a trace that is constant at a value other than the
  driver's initial 90. With a patient whose glucose is 100 at every step and the default
  step of five minutes, the second call (the first \<^emph>\<open>after\<close> the first step) has rate
  \<open>(100 - 90) / 5 = 2\<close> and acceleration \<open>(2 - 0) / 5\<close>, and the third call has
  acceleration \<open>(0 - 2) / 5\<close>.
\<close>

theorem driver_constant_trace_counterexample:
  "\<exists>Gt ds p' calls.
     simulate_controller (constant_glucose 100) (PatientModel_init 90 15 (5 / 60))
         (recording (\<lambda>c g r a. (0, c))) ([], ()) meals
       = Inr (arange 0 24 (5 / 60), Gt, ds, p', (calls, ())) \<and>
     (\<forall>i < length Gt. Gt ! i = 100) \<and>
     calls ! 1 = (100, 2, 2 / 5) \<and> calls ! 2 = (100, 0, - (2 / 5))"
proof -
  let ?p = "PatientModel_init 90 15 (5 / 60)"
  have h: "pm_dt ?p \<noteq> 0" by (simp add: pm_dt_init)
  from simulate_controller_calls [OF h, of "constant_glucose 100" "\<lambda>c g r a. (0, c)" "()" meals]
  obtain Gt ds p' calls c' where
    run: "simulate_controller (constant_glucose 100) ?p (recording (\<lambda>c g r a. (0, c))) ([], ()) meals
            = Inr (arange 0 24 (5 / 60), Gt, ds, p', (calls, c'))"
    and lg: "length Gt = 288" and lc: "length calls = length Gt"
    and ex: "\<forall>j < length calls. calls ! j = expected_call Gt calls 5 j"
    unfolding pm_dt_init length_arange_5min by auto
  from simulate_controller_constant [OF h, of 100 "recording (\<lambda>c g r a. (0, c))" "([], ())" meals] run
  have cg: "\<forall>i < length Gt. Gt ! i = 100"
    by (auto simp: pm_dt_init)
  have c0: "calls ! 0 = (90, 0, 0)"
    using ex lc lg by (simp add: expected_call_first)
  have g0: "Gt ! 0 = 100" "Gt ! Suc 0 = 100" using cg lg by simp_all
  have "calls ! Suc 0 = expected_call Gt calls 5 (Suc 0)" using ex lc lg by simp
  then have c1': "calls ! Suc 0 = (100, 2, 2 / 5)"
    by (simp add: expected_call_def c0 g0)
  then have c1: "calls ! 1 = (100, 2, 2 / 5)" by simp
  have "calls ! 2 = expected_call Gt calls 5 2" using ex lc lg by simp
  also have "\<dots> = (100, 0, - (2 / 5))"
    by (simp add: expected_call_def c1' g0)
  finally have c2: "calls ! 2 = (100, 0, - (2 / 5))" .
  have "c' = ()" by simp
  with run cg c1 c2 show ?thesis by blast
qed

end
